theory Spec2Isabelle
  imports Main
begin

section \<open>Data model\<close>

text \<open>
  The subscription subsystem of the status-page platform: the lifecycle manager of
  \<^verbatim>\<open>packages/subscriptions/src/service.ts\<close>, the dispatcher of
  \<^verbatim>\<open>packages/subscriptions/src/dispatcher.ts\<close>, the two channels, and the tables of
  \<^verbatim>\<open>packages/db/src/schema/page_subscribers\<close>.

  Numbers are \<open>int\<close>. A \<^verbatim>\<open>Date\<close> is its \<^verbatim>\<open>getTime()\<close> value, in milliseconds, and the
  clock is read once per call: every \<^verbatim>\<open>new Date()\<close> and \<^verbatim>\<open>Date.now()\<close> of one call is
  the parameter \<open>now\<close>. A nullable column is an \<open>option\<close>. Strings are byte strings, and
  \<^verbatim>\<open>toLowerCase\<close> (like SQLite's \<^verbatim>\<open>LOWER\<close>) folds the ASCII letters only.
\<close>

type_synonym timestamp = int

text \<open>The timestamp columns of the schema are \<^verbatim>\<open>integer(..., { mode: "timestamp" })\<close>:
  the column holds whole seconds. A \<^verbatim>\<open>Date\<close> is written as
  \<^verbatim>\<open>Math.floor(date.getTime() / 1000)\<close> and the column is read as
  \<^verbatim>\<open>new Date(seconds * 1000)\<close>.\<close>

type_synonym seconds = int

definition mapToDriverValue :: "timestamp \<Rightarrow> seconds" where
  "mapToDriverValue date = date div 1000"

definition mapFromDriverValue :: "seconds \<Rightarrow> timestamp" where
  "mapFromDriverValue stored = stored * 1000"

record page =
  page_id :: int
  page_title :: string
  page_slug :: string
  page_customDomain :: "string option"

record pageComponent =
  pc_id :: int
  pc_pageId :: int

text \<open>A row of \<^verbatim>\<open>page_subscriber\<close>, with the timestamp columns as they are stored.\<close>

record pageSubscriber =
  ps_id :: int
  ps_email :: "string option"
  ps_pageId :: int
  ps_channelType :: string
  ps_webhookUrl :: "string option"
  ps_channelConfig :: "string option"
  ps_token :: "string option"
  ps_acceptedAt :: "seconds option"
  ps_expiresAt :: "seconds option"
  ps_unsubscribedAt :: "seconds option"
  ps_createdAt :: "seconds option"
  ps_updatedAt :: "seconds option"

text \<open>A row of \<^verbatim>\<open>page_subscriber_to_page_component\<close>; its \<^verbatim>\<open>created_at\<close> column, which
  no code reads, is left out.\<close>

record subscriberComponent =
  pageSubscriberId :: int
  pageComponentId :: int

text \<open>The store: each table is the list of its rows in row order, which is the order
  \<^verbatim>\<open>findFirst\<close> and \<^verbatim>\<open>findMany\<close> see.\<close>

record database =
  pages :: "page list"
  pageComponents :: "pageComponent list"
  pageSubscribers :: "pageSubscriber list"
  subscriberComponents :: "subscriberComponent list"

text \<open>The projection the service functions return (\<^verbatim>\<open>Subscription\<close> of \<^verbatim>\<open>types.ts\<close>);
  a field a return statement leaves out, or sets to \<^verbatim>\<open>undefined\<close>, is \<open>None\<close>. Its two
  timestamps are \<^verbatim>\<open>Date\<close>s.\<close>

record subscription =
  sub_id :: int
  sub_pageId :: int
  sub_pageName :: string
  sub_pageSlug :: string
  sub_customDomain :: "string option"
  sub_channelType :: string
  sub_email :: "string option"
  sub_webhookUrl :: "string option"
  sub_channelConfig :: "string option"
  sub_token :: "string option"
  sub_acceptedAt :: "timestamp option"
  sub_unsubscribedAt :: "timestamp option"
  sub_componentIds :: "int list"

text \<open>Every \<^verbatim>\<open>throw new Error(...)\<close> of the service and the channels, named after its
  message; a constraint of the schema that rejects an insert; the \<^verbatim>\<open>TypeError\<close> of
  reading a property of \<^verbatim>\<open>null\<close>, of calling what is not a function, or of iterating
  what is not iterable; and an error that a collaborator (the email provider, \<^verbatim>\<open>fetch\<close>)
  rejects with.\<close>

datatype error =
    PageNotFound int
  | InvalidComponents "int list"
  | SubscriptionNotFound
  | SubscriptionNotYetVerified
  | SubscriptionIsUnsubscribed
  | ComponentsNotOnPage
  | VerificationTokenExpired
  | ConstraintFailed string
  | TypeError
  | MissingApiKey
  | WebhookReturned int
  | CollaboratorFailed string

section \<open>Strings\<close>

definition toLowerCase_char :: "char \<Rightarrow> char" where
  "toLowerCase_char c =
     (let n = (of_char c :: nat) in if 65 \<le> n \<and> n \<le> 90 then char_of (n + 32) else c)"

definition toLowerCase :: "string \<Rightarrow> string" where
  "toLowerCase s = map toLowerCase_char s"

section \<open>The store\<close>

definition VERIFICATION_EXPIRY_DAYS :: int where
  "VERIFICATION_EXPIRY_DAYS = 7"

definition VERIFICATION_EXPIRY_MS :: int where
  "VERIFICATION_EXPIRY_MS = VERIFICATION_EXPIRY_DAYS * 24 * 60 * 60 * 1000"

text \<open>\<^verbatim>\<open>db.query.page.findFirst({ where: eq(page.id, pageId) })\<close>, and the \<^verbatim>\<open>page\<close>
  relation that \<^verbatim>\<open>with: { page: true }\<close> loads.\<close>

definition findPage :: "database \<Rightarrow> int \<Rightarrow> page option" where
  "findPage db pageId = find (\<lambda>p. page_id p = pageId) (pages db)"

text \<open>The \<^verbatim>\<open>components\<close> relation of a subscriber, mapped to the component ids.\<close>

definition componentIdsOf :: "database \<Rightarrow> int \<Rightarrow> int list" where
  "componentIdsOf db subscriberId =
     map pageComponentId
       (filter (\<lambda>c. pageSubscriberId c = subscriberId) (subscriberComponents db))"

text \<open>\<^verbatim>\<open>select id from page_component where page_id = ? and id in (...)\<close>\<close>

definition validComponents :: "database \<Rightarrow> int \<Rightarrow> int list \<Rightarrow> pageComponent list" where
  "validComponents db pageId componentIds =
     filter (\<lambda>c. pc_pageId c = pageId \<and> pc_id c \<in> set componentIds) (pageComponents db)"

text \<open>\<^verbatim>\<open>findFirst({ where: eq(pageSubscriber.token, token) })\<close>\<close>

definition findByToken :: "database \<Rightarrow> string \<Rightarrow> pageSubscriber option" where
  "findByToken db token = find (\<lambda>r. ps_token r = Some token) (pageSubscribers db)"

text \<open>The lookup of the active email subscription of \<^verbatim>\<open>upsertEmailSubscription\<close>: the
  stored email is compared with the lowercased input.\<close>

definition findActiveEmail :: "database \<Rightarrow> string \<Rightarrow> int \<Rightarrow> pageSubscriber option" where
  "findActiveEmail db email pageId =
     find (\<lambda>r. ps_email r = Some (toLowerCase email) \<and> ps_pageId r = pageId
              \<and> ps_channelType r = ''email'' \<and> ps_unsubscribedAt r = None)
          (pageSubscribers db)"

text \<open>\<^verbatim>\<open>update(pageSubscriber).set(...).where(eq(pageSubscriber.id, id))\<close>\<close>

definition updateWhereId ::
  "int \<Rightarrow> (pageSubscriber \<Rightarrow> pageSubscriber) \<Rightarrow> database \<Rightarrow> database" where
  "updateWhereId i f db =
     db\<lparr>pageSubscribers := map (\<lambda>r. if ps_id r = i then f r else r) (pageSubscribers db)\<rparr>"








text \<open>\<^verbatim>\<open>insert(pageSubscriberToPageComponent).values(...)\<close>. The primary key is the pair
  of ids: a plain insert fails on a pair that is stored already, and with
  \<^verbatim>\<open>onConflictDoNothing()\<close> such a pair is skipped.\<close>

definition componentRows :: "int \<Rightarrow> int list \<Rightarrow> subscriberComponent list" where
  "componentRows subscriberId componentIds =
     map (\<lambda>compId. \<lparr> pageSubscriberId = subscriberId, pageComponentId = compId \<rparr>) componentIds"

definition insertComponents ::
  "subscriberComponent list \<Rightarrow> database \<Rightarrow> error + database" where
  "insertComponents vals db =
     (if distinct vals \<and> list_all (\<lambda>v. v \<notin> set (subscriberComponents db)) vals
      then Inr (db\<lparr>subscriberComponents := subscriberComponents db @ vals\<rparr>)
      else Inl (ConstraintFailed ''page_subscriber_to_page_component_pk''))"

fun insertComponentsOnConflictDoNothing ::
  "subscriberComponent list \<Rightarrow> database \<Rightarrow> database" where
  "insertComponentsOnConflictDoNothing [] db = db"
| "insertComponentsOnConflictDoNothing (v # vs) db =
     insertComponentsOnConflictDoNothing vs
       (if v \<in> set (subscriberComponents db) then db
        else db\<lparr>subscriberComponents := subscriberComponents db @ [v]\<rparr>)"

definition deleteComponentsOf :: "int \<Rightarrow> database \<Rightarrow> database" where
  "deleteComponentsOf subscriberId db =
     db\<lparr>subscriberComponents :=
          filter (\<lambda>c. pageSubscriberId c \<noteq> subscriberId) (subscriberComponents db)\<rparr>"

section \<open>The subscription service\<close>


text \<open>\<^verbatim>\<open>[...new Set(xs)]\<close>: the elements of \<open>xs\<close> in the order of their first occurrence.\<close>

definition newSet :: "'a list \<Rightarrow> 'a list" where
  "newSet xs = rev (remdups (rev xs))"

text \<open>The component check that \<^verbatim>\<open>upsertEmailSubscription\<close> and
  \<^verbatim>\<open>updateSubscriptionScope\<close> share: the ids found on the page are counted against the
  ids given.\<close>

definition componentsAccepted :: "database \<Rightarrow> int \<Rightarrow> int list \<Rightarrow> bool" where
  "componentsAccepted db pageId componentIds =
     (componentIds = []
      \<or> length (validComponents db pageId componentIds) = length componentIds)"



text \<open>The domain check that the token operations share. \<^verbatim>\<open>domainDiffers\<close> is the
  condition of its inner \<^verbatim>\<open>if\<close>: the lowercased domain is neither the lowercased slug
  nor the lowercased custom domain (\<^verbatim>\<open>undefined\<close> for a page without one). The outer
  \<^verbatim>\<open>if (domain)\<close> is false for an absent domain and for the empty string; reading
  \<^verbatim>\<open>subscription.page.slug\<close> of a subscriber whose page is not stored throws. The result
  of \<^verbatim>\<open>domainMismatch\<close> says whether the check rejects the domain.\<close>

definition domainDiffers :: "page \<Rightarrow> string \<Rightarrow> bool" where
  "domainDiffers pg domain =
     (let domainLower = toLowerCase domain;
          pageSlugLower = toLowerCase (page_slug pg);
          customDomainLower = map_option toLowerCase (page_customDomain pg)
      in domainLower \<noteq> pageSlugLower \<and> Some domainLower \<noteq> customDomainLower)"

definition domainMismatch ::
  "database \<Rightarrow> pageSubscriber \<Rightarrow> string option \<Rightarrow> error + bool" where
  "domainMismatch db subscription domain =
     (case domain of
        None \<Rightarrow> Inr False
      | Some d \<Rightarrow>
          if d = [] then Inr False
          else (case findPage db (ps_pageId subscription) of
            None \<Rightarrow> Inl TypeError
          | Some pg \<Rightarrow> Inr (domainDiffers pg d)))"

text \<open>\<^verbatim>\<open>verifySubscription(token, domain)\<close>; \<open>Inr None\<close> is the \<^verbatim>\<open>null\<close> it returns.\<close>

definition verifySubscription ::
  "timestamp \<Rightarrow> string \<Rightarrow> string option \<Rightarrow> database
     \<Rightarrow> (error + subscription option) \<times> database" where
  "verifySubscription now token domain db =
     (case findByToken db token of
        None \<Rightarrow> (Inr None, db)
      | Some subscription \<Rightarrow>
          (case domainMismatch db subscription domain of
             Inl e \<Rightarrow> (Inl e, db)
           | Inr True \<Rightarrow> (Inr None, db)
           | Inr False \<Rightarrow>
               (case ps_acceptedAt subscription of
                  Some acceptedAt \<Rightarrow>
                    (case findPage db (ps_pageId subscription) of
                       None \<Rightarrow> (Inl TypeError, db)
                     | Some pg \<Rightarrow>
                         (Inr (Some \<lparr> sub_id = ps_id subscription,
                                 sub_pageId = ps_pageId subscription,
                                 sub_pageName = page_title pg, sub_pageSlug = page_slug pg,
                                 sub_customDomain = page_customDomain pg,
                                 sub_channelType = ps_channelType subscription,
                                 sub_email = ps_email subscription,
                                 sub_webhookUrl = ps_webhookUrl subscription,
                                 sub_channelConfig = None,
                                 sub_token = ps_token subscription,
                                 sub_acceptedAt = Some (mapFromDriverValue acceptedAt),
                                 sub_unsubscribedAt =
                                   map_option mapFromDriverValue
                                     (ps_unsubscribedAt subscription),
                                 sub_componentIds =
                                   componentIdsOf db (ps_id subscription) \<rparr>), db))
                | None \<Rightarrow>
                    if (case ps_expiresAt subscription of
                          None \<Rightarrow> False
                        | Some expiresAt \<Rightarrow> mapFromDriverValue expiresAt < now)
                    then (Inl VerificationTokenExpired, db)
                    else
                      (let db1 = updateWhereId (ps_id subscription)
                                   (\<lambda>r. r\<lparr>ps_acceptedAt := Some (mapToDriverValue now),
                                          ps_updatedAt := Some (mapToDriverValue now)\<rparr>) db
                       in case find (\<lambda>r. ps_id r = ps_id subscription) (pageSubscribers db1) of
                            None \<Rightarrow> (Inl TypeError, db1)
                          | Some updated \<Rightarrow>
                              (case findPage db (ps_pageId subscription) of
                                 None \<Rightarrow> (Inl TypeError, db1)
                               | Some pg \<Rightarrow>
                                   (Inr (Some \<lparr> sub_id = ps_id updated,
                                           sub_pageId = ps_pageId updated,
                                           sub_pageName = page_title pg,
                                           sub_pageSlug = page_slug pg,
                                           sub_customDomain = page_customDomain pg,
                                           sub_channelType = ps_channelType updated,
                                           sub_email = ps_email updated,
                                           sub_webhookUrl = ps_webhookUrl updated,
                                           sub_channelConfig = None,
                                           sub_token = ps_token updated,
                                           sub_acceptedAt =
                                             map_option mapFromDriverValue
                                               (ps_acceptedAt updated),
                                           sub_unsubscribedAt = None,
                                           sub_componentIds =
                                             componentIdsOf db (ps_id subscription) \<rparr>),
                                    db1))))))"

text \<open>\<^verbatim>\<open>updateSubscriptionScope({ token, componentIds, domain })\<close>. The three writes
  run in one transaction.\<close>

definition updateSubscriptionScope ::
  "timestamp \<Rightarrow> string \<Rightarrow> int list \<Rightarrow> string option \<Rightarrow> database
     \<Rightarrow> (error + subscription) \<times> database" where
  "updateSubscriptionScope now token componentIds domain db =
     (case findByToken db token of
        None \<Rightarrow> (Inl SubscriptionNotFound, db)
      | Some subscription \<Rightarrow>
          (case domainMismatch db subscription domain of
             Inl e \<Rightarrow> (Inl e, db)
           | Inr True \<Rightarrow> (Inl SubscriptionNotFound, db)
           | Inr False \<Rightarrow>
               (case ps_acceptedAt subscription of
                  None \<Rightarrow> (Inl SubscriptionNotYetVerified, db)
                | Some acceptedAt \<Rightarrow>
                    if ps_unsubscribedAt subscription \<noteq> None
                    then (Inl SubscriptionIsUnsubscribed, db)
                    else if \<not> componentsAccepted db (ps_pageId subscription) componentIds
                    then (Inl ComponentsNotOnPage, db)
                    else
                      (let db1 = deleteComponentsOf (ps_id subscription) db
                       in case (if componentIds \<noteq> []
                                then insertComponents
                                       (componentRows (ps_id subscription) componentIds) db1
                                else Inr db1) of
                            Inl e \<Rightarrow> (Inl e, db)
                          | Inr db2 \<Rightarrow>
                              (let db3 = updateWhereId (ps_id subscription)
                                           (\<lambda>r. r\<lparr>ps_updatedAt := Some (mapToDriverValue now)\<rparr>)
                                           db2
                               in case findPage db (ps_pageId subscription) of
                                    None \<Rightarrow> (Inl TypeError, db3)
                                  | Some pg \<Rightarrow>
                                      (Inr \<lparr> sub_id = ps_id subscription,
                                             sub_pageId = ps_pageId subscription,
                                             sub_pageName = page_title pg,
                                             sub_pageSlug = page_slug pg,
                                             sub_customDomain = page_customDomain pg,
                                             sub_channelType = ps_channelType subscription,
                                             sub_email = ps_email subscription,
                                             sub_webhookUrl = None,
                                             sub_channelConfig = None,
                                             sub_token = ps_token subscription,
                                             sub_acceptedAt =
                                               Some (mapFromDriverValue acceptedAt),
                                             sub_unsubscribedAt = None,
                                             sub_componentIds = componentIds \<rparr>, db3))))))"

text \<open>\<^verbatim>\<open>unsubscribe(token, domain)\<close>\<close>

definition unsubscribe ::
  "timestamp \<Rightarrow> string \<Rightarrow> string option \<Rightarrow> database \<Rightarrow> (error + unit) \<times> database" where
  "unsubscribe now token domain db =
     (case findByToken db token of
        None \<Rightarrow> (Inl SubscriptionNotFound, db)
      | Some subscription \<Rightarrow>
          (case domainMismatch db subscription domain of
             Inl e \<Rightarrow> (Inl e, db)
           | Inr True \<Rightarrow> (Inl SubscriptionNotFound, db)
           | Inr False \<Rightarrow>
               if ps_unsubscribedAt subscription \<noteq> None then (Inr (), db)
               else (Inr (), updateWhereId (ps_id subscription)
                               (\<lambda>r. r\<lparr>ps_unsubscribedAt := Some (mapToDriverValue now),
                                      ps_updatedAt := Some (mapToDriverValue now)\<rparr>) db)))"

section \<open>The channels\<close>

text \<open>The event record the dispatcher builds (\<^verbatim>\<open>PageUpdate\<close> of \<^verbatim>\<open>types.ts\<close>).\<close>

record pageUpdate =
  pu_id :: int
  pu_pageId :: int
  pu_title :: string
  pu_status :: string
  pu_message :: string
  pu_pageComponentIds :: "int list"
  pu_pageComponents :: "string list"
  pu_date :: string

text \<open>A value that \<^verbatim>\<open>JSON.parse\<close> returns; the fields of an object are in source order.\<close>

datatype json =
    JNull
  | JBool bool
  | JNumber int
  | JString string
  | JArray "json list"
  | JObject "(string \<times> json) list"

text \<open>The batched call to the email provider, \<^verbatim>\<open>client.sendStatusReportUpdate({...})\<close>.\<close>

record statusReportEmail =
  se_subscribers :: "(string \<times> string) list"
  se_pageTitle :: string
  se_pageSlug :: string
  se_customDomain :: "string option"
  se_reportTitle :: string
  se_status :: string
  se_message :: string
  se_date :: string
  se_pageComponents :: "string list"

text \<open>The webhook notification, \<^verbatim>\<open>{ type: "page_update", page: { id, name }, update: {...} }\<close>.\<close>

record webhookPayload =
  wp_type :: string
  wp_pageId :: int
  wp_pageName :: string
  wp_updateId :: int
  wp_title :: string
  wp_status :: string
  wp_message :: string
  wp_pageComponents :: "string list"
  wp_date :: string

text \<open>A \<^verbatim>\<open>fetch\<close> call of the webhook channel: the URL, the two fixed headers, the
  assignments \<^verbatim>\<open>headers[header.key] = header.value\<close> made on top of them, in order and
  as the values read (\<open>None\<close> is \<^verbatim>\<open>undefined\<close>), and the payload that is serialized into
  the body. Every call is a POST with a timeout of 10 seconds.\<close>

record webhookRequest =
  wr_url :: string
  wr_headers :: "(string \<times> string) list"
  wr_assigned :: "(json option \<times> json option) list"
  wr_payload :: webhookPayload

datatype fetchOutcome =
    Rejected error
  | Response bool int

datatype delivery =
    EmailBatch statusReportEmail
  | WebhookPost webhookRequest

text \<open>What a dispatch depends on besides the store. \<^verbatim>\<open>RESEND_API_KEY\<close> is the variable of
  the process environment and \<^verbatim>\<open>emailClient\<close> says whether the module's client has been
  constructed already. The other three are the collaborators, each given as the outcome
  it has for a call: \<^verbatim>\<open>JSON.parse\<close> (\<open>None\<close> when it throws), the email provider
  (\<open>None\<close> when the send resolves, the error when it rejects), and \<^verbatim>\<open>fetch\<close>
  (\<^verbatim>\<open>Rejected\<close> for a network error or timeout, else the response's \<^verbatim>\<open>ok\<close> and
  \<^verbatim>\<open>status\<close>).\<close>

record environment =
  RESEND_API_KEY :: "string option"
  emailClient :: bool
  JSON_parse :: "string \<Rightarrow> json option"
  sendStatusReportUpdate :: "statusReportEmail \<Rightarrow> error option"
  fetch :: "webhookRequest \<Rightarrow> fetchOutcome"

text \<open>\<^verbatim>\<open>Promise.allSettled\<close> over tasks that have run to their end: it resolves with the
  tasks' results, rejected ones included, and the calls the tasks made have been made.\<close>

definition allSettled ::
  "((error + 'a) \<times> 'd list) list \<Rightarrow> (error + (error + 'a) list) \<times> 'd list" where
  "allSettled tasks = (Inr (map fst tasks), concat (map snd tasks))"

subsection \<open>Email\<close>

definition getEmailClient :: "environment \<Rightarrow> error + unit" where
  "getEmailClient env =
     (if \<not> emailClient env
      then (case RESEND_API_KEY env of
              None \<Rightarrow> Inl MissingApiKey
            | Some key \<Rightarrow> if key = [] then Inl MissingApiKey else Inr ())
      else Inr ())"

definition hasEmailAndToken :: "subscription \<Rightarrow> bool" where
  "hasEmailAndToken sub = (sub_email sub \<noteq> None \<and> sub_token sub \<noteq> None)"

definition recipient :: "subscription \<Rightarrow> (string \<times> string) option" where
  "recipient sub =
     (case sub_email sub of
        None \<Rightarrow> None
      | Some email \<Rightarrow> (case sub_token sub of None \<Rightarrow> None | Some token \<Rightarrow> Some (email, token)))"

text \<open>\<^verbatim>\<open>sendEmailNotifications(subscriptions, pageUpdate)\<close>: what it returns or throws, and
  the calls it made.\<close>

definition sendEmailNotifications ::
  "environment \<Rightarrow> subscription list \<Rightarrow> pageUpdate \<Rightarrow> (error + unit) \<times> delivery list" where
  "sendEmailNotifications env subscriptions pageUpdate =
     (if subscriptions = [] then (Inr (), [])
      else (case filter hasEmailAndToken subscriptions of
        [] \<Rightarrow> (Inr (), [])
      | firstSub # others \<Rightarrow>
          (case getEmailClient env of
             Inl e \<Rightarrow> (Inl e, [])
           | Inr client \<Rightarrow>
               (let request =
                      \<lparr> se_subscribers = List.map_filter recipient (firstSub # others),
                        se_pageTitle = sub_pageName firstSub,
                        se_pageSlug = sub_pageSlug firstSub,
                        se_customDomain = sub_customDomain firstSub,
                        se_reportTitle = pu_title pageUpdate,
                        se_status = pu_status pageUpdate,
                        se_message = pu_message pageUpdate,
                        se_date = pu_date pageUpdate,
                        se_pageComponents = pu_pageComponents pageUpdate \<rparr>
                in case sendStatusReportUpdate env request of
                     Some e \<Rightarrow> (Inl e, [EmailBatch request])
                   | None \<Rightarrow> (Inr (), [EmailBatch request])))))"

subsection \<open>Webhook\<close>

definition hasWebhookUrl :: "subscription \<Rightarrow> bool" where
  "hasWebhookUrl sub = (sub_webhookUrl sub \<noteq> None)"

text \<open>Reading a property named \<^verbatim>\<open>headers\<close>, \<^verbatim>\<open>key\<close> or \<^verbatim>\<open>value\<close> of a parsed value: of
  \<^verbatim>\<open>null\<close> it throws, of an object it is the field's value (the last one of that name),
  and no other value has such a property.\<close>

fun getProperty :: "json \<Rightarrow> string \<Rightarrow> error + json option" where
  "getProperty JNull name = Inl TypeError"
| "getProperty (JObject members) name = Inr (map_of (rev members) name)"
| "getProperty v name = Inr None"

fun truthy :: "json option \<Rightarrow> bool" where
  "truthy None = False"
| "truthy (Some JNull) = False"
| "truthy (Some (JBool b)) = b"
| "truthy (Some (JNumber n)) = (n \<noteq> 0)"
| "truthy (Some (JString s)) = (s \<noteq> [])"
| "truthy (Some (JArray xs)) = True"
| "truthy (Some (JObject members)) = True"

text \<open>What \<^verbatim>\<open>for (const header of v)\<close> iterates over: the elements of an array, the
  characters of a string; any other value is not iterable.\<close>

fun iterate :: "json \<Rightarrow> error + json list" where
  "iterate (JArray xs) = Inr xs"
| "iterate (JString s) = Inr (map (\<lambda>c. JString [c]) s)"
| "iterate v = Inl TypeError"

fun assignHeaders :: "json list \<Rightarrow> error + (json option \<times> json option) list" where
  "assignHeaders [] = Inr []"
| "assignHeaders (header # headers) =
     (case getProperty header ''key'' of
        Inl e \<Rightarrow> Inl e
      | Inr key \<Rightarrow>
          (case getProperty header ''value'' of
             Inl e \<Rightarrow> Inl e
           | Inr val \<Rightarrow>
               (case assignHeaders headers of
                  Inl e \<Rightarrow> Inl e
                | Inr rest \<Rightarrow> Inr ((key, val) # rest))))"

text \<open>The configuration of a subscription: \<^verbatim>\<open>{}\<close> when \<^verbatim>\<open>channelConfig\<close> is absent or empty,
  and when \<^verbatim>\<open>JSON.parse\<close> throws (the \<^verbatim>\<open>catch\<close> only logs).\<close>

definition parseConfig :: "environment \<Rightarrow> subscription \<Rightarrow> json" where
  "parseConfig env subscription =
     (case sub_channelConfig subscription of
        None \<Rightarrow> JObject []
      | Some channelConfig \<Rightarrow>
          if channelConfig = [] then JObject []
          else (case JSON_parse env channelConfig of None \<Rightarrow> JObject [] | Some v \<Rightarrow> v))"

definition customHeaders ::
  "environment \<Rightarrow> subscription \<Rightarrow> error + (json option \<times> json option) list" where
  "customHeaders env subscription =
     (case getProperty (parseConfig env subscription) ''headers'' of
        Inl e \<Rightarrow> Inl e
      | Inr headers \<Rightarrow>
          if truthy headers
          then (case headers of
                  None \<Rightarrow> Inr []
                | Some v \<Rightarrow> (case iterate v of Inl e \<Rightarrow> Inl e | Inr hs \<Rightarrow> assignHeaders hs))
          else Inr [])"

definition webhookRequestFor ::
  "subscription \<Rightarrow> pageUpdate \<Rightarrow> string \<Rightarrow> (json option \<times> json option) list \<Rightarrow> webhookRequest" where
  "webhookRequestFor subscription pageUpdate url assigned =
     \<lparr> wr_url = url,
       wr_headers = [(''Content-Type'', ''application/json''),
                     (''User-Agent'', ''OpenStatus-Webhooks/1.0'')],
       wr_assigned = assigned,
       wr_payload =
         \<lparr> wp_type = ''page_update'',
           wp_pageId = sub_pageId subscription, wp_pageName = sub_pageName subscription,
           wp_updateId = pu_id pageUpdate, wp_title = pu_title pageUpdate,
           wp_status = pu_status pageUpdate, wp_message = pu_message pageUpdate,
           wp_pageComponents = pu_pageComponents pageUpdate,
           wp_date = pu_date pageUpdate \<rparr> \<rparr>"

text \<open>The task \<^verbatim>\<open>sendWebhookNotifications\<close> runs for one subscription: an error thrown
  while the headers are assembled ends it before any request; a rejected \<^verbatim>\<open>fetch\<close> and a
  response that is not \<^verbatim>\<open>ok\<close> are logged and thrown again.\<close>

definition postNotification ::
  "environment \<Rightarrow> pageUpdate \<Rightarrow> subscription \<Rightarrow> (error + unit) \<times> delivery list" where
  "postNotification env pageUpdate subscription =
     (case customHeaders env subscription of
        Inl e \<Rightarrow> (Inl e, [])
      | Inr assigned \<Rightarrow>
          (case sub_webhookUrl subscription of
             None \<Rightarrow> (Inl TypeError, [])
           | Some url \<Rightarrow>
               (let request = webhookRequestFor subscription pageUpdate url assigned
                in case fetch env request of
                     Rejected e \<Rightarrow> (Inl e, [WebhookPost request])
                   | Response ok status \<Rightarrow>
                       if \<not> ok then (Inl (WebhookReturned status), [WebhookPost request])
                       else (Inr (), [WebhookPost request]))))"

text \<open>\<^verbatim>\<open>sendWebhookNotifications(subscriptions, pageUpdate)\<close>\<close>

definition sendWebhookNotifications ::
  "environment \<Rightarrow> subscription list \<Rightarrow> pageUpdate \<Rightarrow> (error + unit) \<times> delivery list" where
  "sendWebhookNotifications env subscriptions pageUpdate =
     (let validSubscriptions = filter hasWebhookUrl subscriptions
      in if validSubscriptions = [] then (Inr (), [])
         else (case allSettled (map (postNotification env pageUpdate) validSubscriptions) of
                 (Inl e, posts) \<Rightarrow> (Inl e, posts)
               | (Inr results, posts) \<Rightarrow> (Inr (), posts)))"

subsection \<open>The registry\<close>

datatype channel = EmailChannel | WebhookChannel

text \<open>Modelled from the spec: \<^verbatim>\<open>getChannel\<close> of \<^verbatim>\<open>channels/index.ts\<close>, of which only the
  test is at hand. The registry maps \<^verbatim>\<open>"email"\<close> to the email channel, \<^verbatim>\<open>"webhook"\<close> to the
  webhook channel, and anything else to none.\<close>

definition getChannel :: "string \<Rightarrow> channel option" where
  "getChannel channelType =
     (if channelType = ''email'' then Some EmailChannel
      else if channelType = ''webhook'' then Some WebhookChannel
      else None)"

fun sendNotifications ::
  "channel \<Rightarrow> environment \<Rightarrow> subscription list \<Rightarrow> pageUpdate
     \<Rightarrow> (error + unit) \<times> delivery list" where
  "sendNotifications EmailChannel = sendEmailNotifications"
| "sendNotifications WebhookChannel = sendWebhookNotifications"

section \<open>The dispatcher\<close>

text \<open>The subscribers \<^verbatim>\<open>dispatchPageUpdate\<close> loads:
  \<^verbatim>\<open>findMany({ where: and(eq(pageId), isNotNull(acceptedAt), isNull(unsubscribedAt)) })\<close>.\<close>

definition subscribersWithComponents :: "database \<Rightarrow> pageUpdate \<Rightarrow> pageSubscriber list" where
  "subscribersWithComponents db pageUpdate =
     filter (\<lambda>r. ps_pageId r = pu_pageId pageUpdate \<and> ps_acceptedAt r \<noteq> None
               \<and> ps_unsubscribedAt r = None)
       (pageSubscribers db)"

definition toSubscription :: "database \<Rightarrow> page \<Rightarrow> pageSubscriber \<Rightarrow> subscription" where
  "toSubscription db pageData sub =
     \<lparr> sub_id = ps_id sub, sub_pageId = ps_pageId sub,
       sub_pageName = page_title pageData, sub_pageSlug = page_slug pageData,
       sub_customDomain = page_customDomain pageData,
       sub_channelType = ps_channelType sub, sub_email = ps_email sub,
       sub_webhookUrl = ps_webhookUrl sub, sub_channelConfig = ps_channelConfig sub,
       sub_token = ps_token sub,
       sub_acceptedAt = map_option mapFromDriverValue (ps_acceptedAt sub),
       sub_unsubscribedAt = None,
       sub_componentIds = componentIdsOf db (ps_id sub) \<rparr>"

definition matchingSubscriptions :: "database \<Rightarrow> page \<Rightarrow> pageUpdate \<Rightarrow> subscription list" where
  "matchingSubscriptions db pageData pageUpdate =
     (let affectedComponentIds = pu_pageComponentIds pageUpdate
      in filter (\<lambda>sub. if sub_componentIds sub = [] then True
                        else list_ex (\<lambda>i. i \<in> set (sub_componentIds sub)) affectedComponentIds)
           (map (toSubscription db pageData) (subscribersWithComponents db pageUpdate)))"

text \<open>The grouping \<^verbatim>\<open>reduce\<close> builds in a plain object, as the list of its own entries in
  insertion order. A channel type that names a property every object inherits, such as
  \<^verbatim>\<open>constructor\<close>, finds that property instead of an empty slot, and the \<^verbatim>\<open>push\<close> on it
  throws.\<close>

definition inheritedProperty :: "string \<Rightarrow> bool" where
  "inheritedProperty name =
     (name \<in> set [''constructor'', ''__proto__'', ''hasOwnProperty'', ''isPrototypeOf'',
                  ''propertyIsEnumerable'', ''toLocaleString'', ''toString'', ''valueOf'',
                  ''__defineGetter__'', ''__defineSetter__'', ''__lookupGetter__'',
                  ''__lookupSetter__''])"

definition pushSubscription ::
  "(string \<times> subscription list) list \<Rightarrow> subscription
     \<Rightarrow> error + (string \<times> subscription list) list" where
  "pushSubscription acc sub =
     (let channelType = sub_channelType sub
      in if channelType \<in> set (map fst acc)
         then Inr (map (\<lambda>(k, subs). if k = channelType then (k, subs @ [sub]) else (k, subs)) acc)
         else if inheritedProperty channelType then Inl TypeError
         else Inr (acc @ [(channelType, [sub])]))"

fun byChannel ::
  "(string \<times> subscription list) list \<Rightarrow> subscription list
     \<Rightarrow> error + (string \<times> subscription list) list" where
  "byChannel acc [] = Inr acc"
| "byChannel acc (sub # subs) =
     (case pushSubscription acc sub of Inl e \<Rightarrow> Inl e | Inr acc' \<Rightarrow> byChannel acc' subs)"

text \<open>\<^verbatim>\<open>Object.entries\<close> of the grouping object. A plain object lists its array indices
  first, in ascending numeric order, and then its other keys in insertion order; an array
  index is the decimal numeral, with no leading zero, of an integer below \<^verbatim>\<open>2^32 - 1\<close>.\<close>

definition decimal :: "string \<Rightarrow> nat" where
  "decimal name = foldl (\<lambda>n c. 10 * n + (of_char c - 48)) 0 name"

definition arrayIndex :: "string \<Rightarrow> bool" where
  "arrayIndex name =
     (name \<noteq> [] \<and> list_all (\<lambda>c. c \<in> set ''0123456789'') name
      \<and> (name = ''0'' \<or> hd name \<noteq> CHR ''0'') \<and> decimal name < 2 ^ 32 - 1)"

definition Object_entries :: "(string \<times> 'a) list \<Rightarrow> (string \<times> 'a) list" where
  "Object_entries obj =
     sort_key (\<lambda>entry. decimal (fst entry)) (filter (\<lambda>entry. arrayIndex (fst entry)) obj)
     @ filter (\<lambda>entry. \<not> arrayIndex (fst entry)) obj"

text \<open>What the dispatcher did for one channel group: the channel type, the subscriptions of
  the group, what became of the send, and the calls the channel made.\<close>

datatype sendOutcome =
    UnknownChannelType
  | Sent nat
  | FailedToSend error

record channelRun =
  cr_channelType :: string
  cr_subscriptions :: "subscription list"
  cr_outcome :: sendOutcome
  cr_deliveries :: "delivery list"

text \<open>The task of one group: it resolves in every case, having logged the outcome.\<close>

definition runChannel ::
  "environment \<Rightarrow> pageUpdate \<Rightarrow> string \<times> subscription list
     \<Rightarrow> (error + unit) \<times> channelRun list" where
  "runChannel env pageUpdate entry =
     (case entry of (channelType, subs) \<Rightarrow>
        (case getChannel channelType of
           None \<Rightarrow>
             (Inr (), [\<lparr> cr_channelType = channelType, cr_subscriptions = subs,
                          cr_outcome = UnknownChannelType, cr_deliveries = [] \<rparr>])
         | Some channel \<Rightarrow>
             (case sendNotifications channel env subs pageUpdate of
                (Inr sent, calls) \<Rightarrow>
                  (Inr (), [\<lparr> cr_channelType = channelType, cr_subscriptions = subs,
                               cr_outcome = Sent (length subs), cr_deliveries = calls \<rparr>])
              | (Inl e, calls) \<Rightarrow>
                  (Inr (), [\<lparr> cr_channelType = channelType, cr_subscriptions = subs,
                               cr_outcome = FailedToSend e, cr_deliveries = calls \<rparr>]))))"

text \<open>\<^verbatim>\<open>dispatchPageUpdate(pageUpdate)\<close>: what it returns or throws to its caller, and what
  it did for each channel group.\<close>

definition dispatchPageUpdate ::
  "environment \<Rightarrow> database \<Rightarrow> pageUpdate \<Rightarrow> (error + unit) \<times> channelRun list" where
  "dispatchPageUpdate env db pageUpdate =
     (case findPage db (pu_pageId pageUpdate) of
        None \<Rightarrow> (Inr (), [])
      | Some pageData \<Rightarrow>
          (let matching = matchingSubscriptions db pageData pageUpdate
           in if matching = [] then (Inr (), [])
              else (case byChannel [] matching of
                Inl e \<Rightarrow> (Inl e, [])
              | Inr groups \<Rightarrow>
                  (case allSettled (map (runChannel env pageUpdate) (Object_entries groups)) of
                     (Inl e, runs) \<Rightarrow> (Inl e, runs)
                   | (Inr results, runs) \<Rightarrow> (Inr (), runs)))))"

text \<open>The matching rule in the words of the specification: a subscriber of the event's
  page that is accepted and not unsubscribed matches iff its component set is empty or
  meets the event's affected components.\<close>

definition specMatches :: "database \<Rightarrow> pageUpdate \<Rightarrow> pageSubscriber \<Rightarrow> bool" where
  "specMatches db pageUpdate r =
     (ps_pageId r = pu_pageId pageUpdate \<and> ps_acceptedAt r \<noteq> None \<and> ps_unsubscribedAt r = None
      \<and> (set (componentIdsOf db (ps_id r)) = {}
          \<or> set (componentIdsOf db (ps_id r)) \<inter> set (pu_pageComponentIds pageUpdate) \<noteq> {}))"

section \<open>Auxiliary definitions for the statements\<close>

text \<open>The groups of a list of subscriptions: one per channel type, in the order in which
  the types first occur, each with the subscriptions of that type in their order.\<close>

definition groupsOf :: "subscription list \<Rightarrow> (string \<times> subscription list) list" where
  "groupsOf subs =
     map (\<lambda>k. (k, filter (\<lambda>s. sub_channelType s = k) subs)) (newSet (map sub_channelType subs))"

text \<open>A channel type for which the grouping object behaves as a map in insertion order:
  neither the name of a property that every object inherits nor an array index. The two
  channel types the schema admits, \<^verbatim>\<open>email\<close> and \<^verbatim>\<open>webhook\<close>, are of this kind.\<close>

definition ordinaryKey :: "string \<Rightarrow> bool" where
  "ordinaryKey name = (\<not> inheritedProperty name \<and> \<not> arrayIndex name)"




text \<open>The store the pending branch of \<^verbatim>\<open>upsertEmailSubscription\<close> leaves: the new ids
  inserted, then the deadline moved.\<close>

definition mergedStore :: "timestamp \<Rightarrow> pageSubscriber \<Rightarrow> int list \<Rightarrow> database \<Rightarrow> database" where
  "mergedStore now existing cs db =
     (let currentIds = componentIdsOf db (ps_id existing);
          newIds = filter (\<lambda>i. i \<notin> set currentIds) (newSet (currentIds @ cs))
      in updateWhereId (ps_id existing)
           (\<lambda>r. r\<lparr>ps_expiresAt := Some (mapToDriverValue (now + VERIFICATION_EXPIRY_MS)),
                  ps_updatedAt := Some (mapToDriverValue now)\<rparr>)
           (if newIds \<noteq> []
            then insertComponentsOnConflictDoNothing (componentRows (ps_id existing) newIds) db
            else db))"

section \<open>Constraints of the store\<close>

text \<open>What the schema guarantees of every stored state: \<^verbatim>\<open>page_component.id\<close> is a
  primary key; \<^verbatim>\<open>page_subscriber.page_id\<close> references a stored page; a row of
  \<^verbatim>\<open>page_subscriber_to_page_component\<close> references a stored subscriber (both with
  \<^verbatim>\<open>onDelete: "cascade"\<close>).\<close>

definition pageComponentKey :: "database \<Rightarrow> bool" where
  "pageComponentKey db = distinct (map pc_id (pageComponents db))"

definition subscribersReferToPages :: "database \<Rightarrow> bool" where
  "subscribersReferToPages db =
     list_all (\<lambda>r. findPage db (ps_pageId r) \<noteq> None) (pageSubscribers db)"


text \<open>A component id belongs to a page.\<close>

definition componentOnPage :: "database \<Rightarrow> int \<Rightarrow> int \<Rightarrow> bool" where
  "componentOnPage db pageId componentId =
     list_ex (\<lambda>c. pc_id c = componentId \<and> pc_pageId c = pageId) (pageComponents db)"




section \<open>Example data\<close>

text \<open>A page with two components and five email subscribers: one accepted, one pending,
  one unsubscribed before it was ever verified, one pending whose deadline has passed, and
  one that was accepted and then unsubscribed.\<close>

definition exPage :: page where
  "exPage = \<lparr> page_id = 1, page_title = ''Status'', page_slug = ''status'',
              page_customDomain = Some ''st.io'' \<rparr>"

definition exRow :: "int \<Rightarrow> string \<Rightarrow> string \<Rightarrow> pageSubscriber" where
  "exRow i email token =
     \<lparr> ps_id = i, ps_email = Some email, ps_pageId = 1, ps_channelType = ''email'',
       ps_webhookUrl = None, ps_channelConfig = None, ps_token = Some token,
       ps_acceptedAt = None, ps_expiresAt = Some 5000, ps_unsubscribedAt = None,
       ps_createdAt = Some 0, ps_updatedAt = Some 0 \<rparr>"

definition exAccepted :: pageSubscriber where
  "exAccepted = (exRow 1 ''a@b.c'' ''t1'')\<lparr>ps_acceptedAt := Some 100\<rparr>"

definition exPending :: pageSubscriber where
  "exPending = exRow 2 ''p@b.c'' ''t2''"

definition exUnsubscribed :: pageSubscriber where
  "exUnsubscribed = (exRow 3 ''u@b.c'' ''t3'')\<lparr>ps_unsubscribedAt := Some 200\<rparr>"

definition exExpired :: pageSubscriber where
  "exExpired = (exRow 4 ''x@b.c'' ''t4'')\<lparr>ps_expiresAt := Some 10\<rparr>"

definition exLeft :: pageSubscriber where
  "exLeft = (exRow 5 ''l@b.c'' ''t5'')\<lparr>ps_acceptedAt := Some 100, ps_unsubscribedAt := Some 300\<rparr>"

definition exDb :: database where
  "exDb = \<lparr> pages = [exPage],
            pageComponents = [\<lparr> pc_id = 1, pc_pageId = 1 \<rparr>, \<lparr> pc_id = 2, pc_pageId = 1 \<rparr>],
            pageSubscribers = [exAccepted, exPending, exUnsubscribed, exExpired, exLeft],
            subscriberComponents =
              [\<lparr> pageSubscriberId = 1, pageComponentId = 1 \<rparr>,
               \<lparr> pageSubscriberId = 2, pageComponentId = 1 \<rparr>] \<rparr>"



text \<open>The same page with accepted subscribers: one for the whole page and one for the
  first component, both by email; a webhook for the second component; one of a channel
  type the registry does not know; and a subscriber that is still pending.\<close>

definition exWatchers :: database where
  "exWatchers = exDb\<lparr>
     pageSubscribers :=
       [(exRow 1 ''a@b.c'' ''t1'')\<lparr>ps_acceptedAt := Some 100\<rparr>,
        (exRow 2 ''b@b.c'' ''t2'')\<lparr>ps_acceptedAt := Some 100\<rparr>,
        (exRow 3 ''c@b.c'' ''t3'')\<lparr>ps_acceptedAt := Some 100, ps_email := None,
           ps_channelType := ''webhook'', ps_webhookUrl := Some ''https://h.io''\<rparr>,
        (exRow 4 ''d@b.c'' ''t4'')\<lparr>ps_acceptedAt := Some 100, ps_channelType := ''sms''\<rparr>,
        exRow 5 ''e@b.c'' ''t5''],
     subscriberComponents :=
       [\<lparr> pageSubscriberId = 2, pageComponentId = 1 \<rparr>,
        \<lparr> pageSubscriberId = 3, pageComponentId = 2 \<rparr>]\<rparr>"

definition exUpdate :: "int list \<Rightarrow> pageUpdate" where
  "exUpdate affected =
     \<lparr> pu_id = 7, pu_pageId = 1, pu_title = ''Outage'', pu_status = ''investigating'',
       pu_message = ''Looking'', pu_pageComponentIds = affected,
       pu_pageComponents = [], pu_date = ''today'' \<rparr>"

text \<open>An environment in which the email provider rejects every send and every \<^verbatim>\<open>fetch\<close>
  times out, and one in which every collaborator succeeds.\<close>

definition exFailing :: environment where
  "exFailing =
     \<lparr> RESEND_API_KEY = Some ''key'', emailClient = False,
       JSON_parse = (\<lambda>s. None),
       sendStatusReportUpdate = (\<lambda>m. Some (CollaboratorFailed ''SMTP failure'')),
       fetch = (\<lambda>r. Rejected (CollaboratorFailed ''timeout'')) \<rparr>"

definition exWorking :: environment where
  "exWorking =
     \<lparr> RESEND_API_KEY = Some ''key'', emailClient = False,
       JSON_parse = (\<lambda>s. None),
       sendStatusReportUpdate = (\<lambda>m. None),
       fetch = (\<lambda>r. Response True 200) \<rparr>"


section \<open>Basic facts about the store and the token operations\<close>

lemma find_map_invariant:
  "(\<And>x. P (f x) = P x) \<Longrightarrow> find P (map f xs) = map_option f (find P xs)"
  by (induction xs) auto

lemma find_Some_mem: "find P xs = Some x \<Longrightarrow> x \<in> set xs \<and> P x"
  by (induction xs) (auto split: if_splits)

lemma find_exists: "x \<in> set xs \<Longrightarrow> P x \<Longrightarrow> \<exists>y. find P xs = Some y \<and> P y \<and> y \<in> set xs"
  by (induction xs) auto

lemma findPage_updateWhereId [simp]: "findPage (updateWhereId i f db) p = findPage db p"
  by (simp add: findPage_def updateWhereId_def)

lemma componentIdsOf_updateWhereId [simp]:
  "componentIdsOf (updateWhereId i f db) s = componentIdsOf db s"
  by (simp add: componentIdsOf_def updateWhereId_def)

lemma findByToken_updateWhereId:
  assumes "\<And>r. ps_token (f r) = ps_token r"
  shows "findByToken (updateWhereId i f db) t
    = map_option (\<lambda>r. if ps_id r = i then f r else r) (findByToken db t)"
  unfolding findByToken_def updateWhereId_def
  by (simp add: find_map_invariant assms)

lemma findById_updateWhereId:
  assumes "\<And>r. ps_id (f r) = ps_id r"
  shows "find (\<lambda>r. ps_id r = j) (pageSubscribers (updateWhereId i f db))
    = map_option (\<lambda>r. if ps_id r = i then f r else r) (find (\<lambda>r. ps_id r = j) (pageSubscribers db))"
  unfolding updateWhereId_def
  by (simp add: find_map_invariant assms)

lemma findByToken_mem:
  "findByToken db t = Some r \<Longrightarrow> r \<in> set (pageSubscribers db) \<and> ps_token r = Some t"
  unfolding findByToken_def by (rule find_Some_mem)

lemma findById_of_found:
  assumes "findByToken db t = Some r"
  shows "\<exists>r0. find (\<lambda>x. ps_id x = ps_id r) (pageSubscribers db) = Some r0 \<and> ps_id r0 = ps_id r"
  using find_exists [of r "pageSubscribers db" "\<lambda>x. ps_id x = ps_id r"] findByToken_mem [OF assms]
  by auto

lemma domainMismatch_updateWhereId:
  "ps_pageId r' = ps_pageId r \<Longrightarrow>
   domainMismatch (updateWhereId i f db) r' d = domainMismatch db r d"
  by (simp add: domainMismatch_def split: option.splits)

lemma verifySubscription_accepted:
  assumes "findByToken db token = Some r"
    and "domainMismatch db r domain = Inr False"
    and "ps_acceptedAt r = Some a"
    and "findPage db (ps_pageId r) = Some pg"
  shows "verifySubscription now token domain db =
      (Inr (Some \<lparr> sub_id = ps_id r, sub_pageId = ps_pageId r,
          sub_pageName = page_title pg, sub_pageSlug = page_slug pg,
          sub_customDomain = page_customDomain pg, sub_channelType = ps_channelType r,
          sub_email = ps_email r, sub_webhookUrl = ps_webhookUrl r,
          sub_channelConfig = None, sub_token = ps_token r,
          sub_acceptedAt = Some (mapFromDriverValue a),
          sub_unsubscribedAt = map_option mapFromDriverValue (ps_unsubscribedAt r),
          sub_componentIds = componentIdsOf db (ps_id r) \<rparr>), db)"
  using assms by (simp add: verifySubscription_def)

lemma verifySubscription_pending:
  assumes found: "findByToken db token = Some r"
    and domain: "domainMismatch db r domain = Inr False"
    and pending: "ps_acceptedAt r = None"
    and deadline: "\<And>e. ps_expiresAt r = Some e \<Longrightarrow> now \<le> mapFromDriverValue e"
    and page: "findPage db (ps_pageId r) = Some pg"
  shows "\<exists>s. verifySubscription now token domain db =
           (Inr (Some s),
            updateWhereId (ps_id r)
              (\<lambda>x. x\<lparr>ps_acceptedAt := Some (mapToDriverValue now), ps_updatedAt := Some (mapToDriverValue now)\<rparr>) db)
         \<and> sub_id s = ps_id r \<and> sub_acceptedAt s = Some (mapFromDriverValue (mapToDriverValue now))
         \<and> sub_componentIds s = componentIdsOf db (ps_id r)"
proof -
  let ?f = "\<lambda>x. x\<lparr>ps_acceptedAt := Some (mapToDriverValue now), ps_updatedAt := Some (mapToDriverValue now)\<rparr>"
  let ?db1 = "updateWhereId (ps_id r) ?f db"
  obtain r0 where r0: "find (\<lambda>x. ps_id x = ps_id r) (pageSubscribers db) = Some r0"
      "ps_id r0 = ps_id r"
    using findById_of_found [OF found] by blast
  have updated: "find (\<lambda>x. ps_id x = ps_id r) (pageSubscribers ?db1) = Some (?f r0)"
    using r0 by (simp add: findById_updateWhereId)
  have live: "\<not> (case ps_expiresAt r of None \<Rightarrow> False
                     | Some e \<Rightarrow> mapFromDriverValue e < now)"
    using deadline by (auto split: option.splits)
  show ?thesis
    using found pending live domain page updated r0
    by (simp add: verifySubscription_def Let_def)
qed

lemma findByToken_after_update:
  assumes "findByToken db token = Some r" and "\<And>x. ps_token (f x) = ps_token x"
  shows "findByToken (updateWhereId (ps_id r) f db) token = Some (f r)"
  using assms by (simp add: findByToken_updateWhereId)

lemma unsubscribe_found:
  assumes "findByToken db token = Some r" and "domainMismatch db r domain = Inr False"
  shows "unsubscribe now token domain db =
     (Inr (), if ps_unsubscribedAt r \<noteq> None then db
              else updateWhereId (ps_id r)
                     (\<lambda>x. x\<lparr>ps_unsubscribedAt := Some (mapToDriverValue now), ps_updatedAt := Some (mapToDriverValue now)\<rparr>) db)"
  using assms by (simp add: unsubscribe_def)

lemma domainMismatch_page:
  "findPage db (ps_pageId r) = Some pg \<Longrightarrow>
   domainMismatch db r domain
     = Inr (case domain of None \<Rightarrow> False | Some d \<Rightarrow> d \<noteq> [] \<and> domainDiffers pg d)"
  by (simp add: domainMismatch_def split: option.splits)

lemma referred_page:
  assumes "subscribersReferToPages db" and "findByToken db token = Some r"
  shows "\<exists>pg. findPage db (ps_pageId r) = Some pg"
  using assms findByToken_mem [of db token r]
  by (auto simp add: subscribersReferToPages_def list_all_iff)

lemma length_validComponents:
  assumes "distinct (map pc_id (pageComponents db))"
  shows "length (validComponents db p cs)
    = card (set cs \<inter> pc_id ` {c \<in> set (pageComponents db). pc_pageId c = p})"
proof -
  let ?V = "validComponents db p cs"
  have "distinct (map pc_id ?V)"
    unfolding validComponents_def using assms by (rule distinct_map_filter)
  then have "length ?V = card (set (map pc_id ?V))"
    by (metis distinct_card length_map)
  also have "set (map pc_id ?V) = set cs \<inter> pc_id ` {c \<in> set (pageComponents db). pc_pageId c = p}"
    by (auto simp add: validComponents_def)
  finally show ?thesis .
qed

lemma componentsAccepted_iff:
  assumes "pageComponentKey db" and "distinct cs"
  shows "componentsAccepted db p cs \<longleftrightarrow> list_all (componentOnPage db p) cs"
proof -
  let ?O = "pc_id ` {c \<in> set (pageComponents db). pc_pageId c = p}"
  have len: "length (validComponents db p cs) = card (set cs \<inter> ?O)"
    using assms(1) by (simp add: pageComponentKey_def length_validComponents)
  have on: "list_all (componentOnPage db p) cs \<longleftrightarrow> set cs \<subseteq> ?O"
    by (auto simp add: componentOnPage_def list_all_iff list_ex_iff)
  have "card (set cs \<inter> ?O) = card (set cs) \<longleftrightarrow> set cs \<subseteq> ?O"
  proof
    assume "card (set cs \<inter> ?O) = card (set cs)"
    then have "set cs \<inter> ?O = set cs"
      by (intro card_subset_eq) auto
    then show "set cs \<subseteq> ?O" by blast
  next
    assume "set cs \<subseteq> ?O"
    then have "set cs \<inter> ?O = set cs" by blast
    then show "card (set cs \<inter> ?O) = card (set cs)" by simp
  qed
  then have "length (validComponents db p cs) = length cs \<longleftrightarrow> set cs \<subseteq> ?O"
    using len assms(2) by (simp add: distinct_card)
  then show ?thesis
    using on by (cases "cs = []") (auto simp add: componentsAccepted_def)
qed

lemma replaceComponents:
  assumes "distinct cs"
  shows "(if cs \<noteq> [] then insertComponents (componentRows i cs) (deleteComponentsOf i db)
          else Inr (deleteComponentsOf i db))
     = Inr (db\<lparr>subscriberComponents :=
               filter (\<lambda>c. pageSubscriberId c \<noteq> i) (subscriberComponents db)
               @ componentRows i cs\<rparr>)"
proof -
  have "distinct (componentRows i cs)"
    using assms by (simp add: componentRows_def distinct_map inj_on_def)
  moreover have "list_all (\<lambda>v. v \<notin> set (subscriberComponents (deleteComponentsOf i db)))
      (componentRows i cs)"
    by (auto simp add: list_all_iff componentRows_def deleteComponentsOf_def)
  ultimately show ?thesis
    by (simp add: insertComponents_def deleteComponentsOf_def componentRows_def)
qed

lemma componentIdsOf_replaced:
  "componentIdsOf (db\<lparr>subscriberComponents :=
               filter (\<lambda>c. pageSubscriberId c \<noteq> i) (subscriberComponents db)
               @ componentRows i cs\<rparr>) j
   = (if j = i then cs else componentIdsOf db j)"
proof -
  have a: "filter (\<lambda>c. pageSubscriberId c = i) (componentRows i cs) = componentRows i cs"
    by (simp add: componentRows_def filter_map o_def)
  have b: "j \<noteq> i \<Longrightarrow> filter (\<lambda>c. pageSubscriberId c = j) (componentRows i cs) = []"
    by (simp add: componentRows_def filter_map o_def)
  have d: "j \<noteq> i \<Longrightarrow>
      filter (\<lambda>x. pageSubscriberId x \<noteq> i \<and> pageSubscriberId x = j) (subscriberComponents db)
      = filter (\<lambda>c. pageSubscriberId c = j) (subscriberComponents db)"
    by (rule filter_cong) auto
  have e: "map pageComponentId (componentRows i cs) = cs"
    by (simp add: componentRows_def o_def)
  show ?thesis
    by (simp add: componentIdsOf_def a b d e)
qed

lemma updateSubscriptionScope_cases:
  assumes key: "pageComponentKey db" and cs: "distinct cs"
    and found: "findByToken db token = Some r"
    and page: "findPage db (ps_pageId r) = Some pg"
  shows "updateSubscriptionScope now token cs domain db =
    (if (case domain of None \<Rightarrow> False | Some d \<Rightarrow> d \<noteq> [] \<and> domainDiffers pg d)
       then (Inl SubscriptionNotFound, db)
     else if ps_acceptedAt r = None then (Inl SubscriptionNotYetVerified, db)
     else if ps_unsubscribedAt r \<noteq> None then (Inl SubscriptionIsUnsubscribed, db)
     else if \<not> list_all (componentOnPage db (ps_pageId r)) cs then (Inl ComponentsNotOnPage, db)
     else (Inr \<lparr> sub_id = ps_id r, sub_pageId = ps_pageId r,
                 sub_pageName = page_title pg, sub_pageSlug = page_slug pg,
                 sub_customDomain = page_customDomain pg,
                 sub_channelType = ps_channelType r, sub_email = ps_email r,
                 sub_webhookUrl = None, sub_channelConfig = None,
                 sub_token = ps_token r,
                 sub_acceptedAt = map_option mapFromDriverValue (ps_acceptedAt r),
                 sub_unsubscribedAt = None, sub_componentIds = cs \<rparr>,
           updateWhereId (ps_id r) (\<lambda>x. x\<lparr>ps_updatedAt := Some (mapToDriverValue now)\<rparr>)
             (db\<lparr>subscriberComponents :=
                  filter (\<lambda>c. pageSubscriberId c \<noteq> ps_id r) (subscriberComponents db)
                  @ componentRows (ps_id r) cs\<rparr>)))"
  using found page
  by (auto simp add: updateSubscriptionScope_def domainMismatch_page [OF page]
      componentsAccepted_iff [OF key cs] replaceComponents [OF cs] Let_def findPage_def
      split: option.splits)

section \<open>Facts about upsert and the invariant\<close>

lemma set_newSet [simp]: "set (newSet xs) = set xs"
  by (simp add: newSet_def)

lemma insertOnConflict_fields [simp]:
  "pages (insertComponentsOnConflictDoNothing vs db) = pages db"
  "pageComponents (insertComponentsOnConflictDoNothing vs db) = pageComponents db"
  "pageSubscribers (insertComponentsOnConflictDoNothing vs db) = pageSubscribers db"
  by (induction vs arbitrary: db) auto



lemma insertOnConflict_nothing:
  "set vs \<subseteq> set (subscriberComponents db) \<Longrightarrow> insertComponentsOnConflictDoNothing vs db = db"
  by (induction vs arbitrary: db) auto


lemma findPage_insertOnConflict [simp]:
  "findPage (insertComponentsOnConflictDoNothing vs db) p = findPage db p"
  by (simp add: findPage_def)

lemma findActiveEmail_insertOnConflict [simp]:
  "findActiveEmail (insertComponentsOnConflictDoNothing vs db) e p = findActiveEmail db e p"
  by (simp add: findActiveEmail_def)










lemma mergedStore_fields [simp]:
  "pages (mergedStore now x cs db) = pages db"
  "pageComponents (mergedStore now x cs db) = pageComponents db"
  "map ps_id (pageSubscribers (mergedStore now x cs db)) = map ps_id (pageSubscribers db)"
  "map ps_token (pageSubscribers (mergedStore now x cs db)) = map ps_token (pageSubscribers db)"
  by (simp_all add: mergedStore_def Let_def updateWhereId_def o_def)

lemma findPage_mergedStore [simp]: "findPage (mergedStore now x cs db) p = findPage db p"
  by (simp add: findPage_def)



























lemma findActiveEmail_cong:
  "pageSubscribers db' = pageSubscribers db \<Longrightarrow> findActiveEmail db' e p = findActiveEmail db e p"
  by (simp add: findActiveEmail_def)










section \<open>Upsert on an accepted subscription\<close>





section \<open>Verification\<close>

text \<open>
  Claim C7, as amended. \<^verbatim>\<open>verifySubscription\<close> returns \<^verbatim>\<open>null\<close> and writes nothing when
  the token matches no subscriber, and likewise when a non-empty domain is given that
  differs, case-insensitively, from both the page's slug and its custom domain. (An empty
  domain string is treated as no domain at all: \<^verbatim>\<open>if (domain)\<close> skips the check.) On a
  subscriber that passes the domain check: if it is accepted already, the store is left
  as it is and the projection carries the stored acceptance time; if it is pending and
  the stored \<^verbatim>\<open>expiresAt\<close> is earlier than now, the call throws the expiry error and writes
  nothing; otherwise \<^verbatim>\<open>acceptedAt\<close> (and \<^verbatim>\<open>updatedAt\<close>) of that subscriber becomes now in
  whole seconds, which is what the column keeps, and the projection returned carries that
  time.
\<close>

theorem verify_outcomes:
  "(findByToken db token = None \<longrightarrow> verifySubscription now token domain db = (Inr None, db))
   \<and> (\<forall>r pg d. findByToken db token = Some r \<and> findPage db (ps_pageId r) = Some pg
         \<and> domain = Some d \<and> d \<noteq> [] \<and> domainDiffers pg d
       \<longrightarrow> verifySubscription now token domain db = (Inr None, db))
   \<and> (\<forall>r pg a. findByToken db token = Some r \<and> findPage db (ps_pageId r) = Some pg
         \<and> domainMismatch db r domain = Inr False \<and> ps_acceptedAt r = Some a
       \<longrightarrow> snd (verifySubscription now token domain db) = db
         \<and> (\<exists>s. fst (verifySubscription now token domain db) = Inr (Some s)
               \<and> sub_id s = ps_id r \<and> sub_token s = ps_token r
               \<and> sub_acceptedAt s = Some (mapFromDriverValue a)
               \<and> sub_unsubscribedAt s = map_option mapFromDriverValue (ps_unsubscribedAt r)
               \<and> sub_componentIds s = componentIdsOf db (ps_id r)))
   \<and> (\<forall>r e. findByToken db token = Some r \<and> domainMismatch db r domain = Inr False
         \<and> ps_acceptedAt r = None \<and> ps_expiresAt r = Some e \<and> mapFromDriverValue e < now
       \<longrightarrow> verifySubscription now token domain db = (Inl VerificationTokenExpired, db))
   \<and> (\<forall>r pg. findByToken db token = Some r \<and> findPage db (ps_pageId r) = Some pg
         \<and> domainMismatch db r domain = Inr False \<and> ps_acceptedAt r = None
         \<and> (\<forall>e. ps_expiresAt r = Some e \<longrightarrow> now \<le> mapFromDriverValue e)
       \<longrightarrow> (\<exists>s. fst (verifySubscription now token domain db) = Inr (Some s)
               \<and> sub_id s = ps_id r
               \<and> sub_acceptedAt s = Some (mapFromDriverValue (mapToDriverValue now))
               \<and> sub_componentIds s = componentIdsOf db (ps_id r))
         \<and> snd (verifySubscription now token domain db)
             = updateWhereId (ps_id r)
                 (\<lambda>x. x\<lparr>ps_acceptedAt := Some (mapToDriverValue now),
                        ps_updatedAt := Some (mapToDriverValue now)\<rparr>) db
         \<and> findByToken (snd (verifySubscription now token domain db)) token
             = Some (r\<lparr>ps_acceptedAt := Some (mapToDriverValue now),
                       ps_updatedAt := Some (mapToDriverValue now)\<rparr>))"
proof (intro conjI allI impI)
  assume "findByToken db token = None"
  then show "verifySubscription now token domain db = (Inr None, db)"
    by (simp add: verifySubscription_def)
next
  fix r pg d
  assume "findByToken db token = Some r \<and> findPage db (ps_pageId r) = Some pg
         \<and> domain = Some d \<and> d \<noteq> [] \<and> domainDiffers pg d"
  then show "verifySubscription now token domain db = (Inr None, db)"
    by (simp add: verifySubscription_def domainMismatch_def)
next
  fix r pg a
  assume h: "findByToken db token = Some r \<and> findPage db (ps_pageId r) = Some pg
         \<and> domainMismatch db r domain = Inr False \<and> ps_acceptedAt r = Some a"
  then have v: "verifySubscription now token domain db =
      (Inr (Some \<lparr> sub_id = ps_id r, sub_pageId = ps_pageId r,
          sub_pageName = page_title pg, sub_pageSlug = page_slug pg,
          sub_customDomain = page_customDomain pg, sub_channelType = ps_channelType r,
          sub_email = ps_email r, sub_webhookUrl = ps_webhookUrl r,
          sub_channelConfig = None, sub_token = ps_token r,
          sub_acceptedAt = Some (mapFromDriverValue a),
          sub_unsubscribedAt = map_option mapFromDriverValue (ps_unsubscribedAt r),
          sub_componentIds = componentIdsOf db (ps_id r) \<rparr>), db)"
    by (intro verifySubscription_accepted) simp_all
  show "snd (verifySubscription now token domain db) = db"
    by (simp add: v)
  show "\<exists>s. fst (verifySubscription now token domain db) = Inr (Some s)
               \<and> sub_id s = ps_id r \<and> sub_token s = ps_token r
               \<and> sub_acceptedAt s = Some (mapFromDriverValue a)
               \<and> sub_unsubscribedAt s = map_option mapFromDriverValue (ps_unsubscribedAt r)
               \<and> sub_componentIds s = componentIdsOf db (ps_id r)"
    by (simp add: v)
next
  fix r e
  assume "findByToken db token = Some r \<and> domainMismatch db r domain = Inr False
         \<and> ps_acceptedAt r = None \<and> ps_expiresAt r = Some e \<and> mapFromDriverValue e < now"
  then show "verifySubscription now token domain db = (Inl VerificationTokenExpired, db)"
    by (simp add: verifySubscription_def)
next
  fix r pg
  assume h: "findByToken db token = Some r \<and> findPage db (ps_pageId r) = Some pg
         \<and> domainMismatch db r domain = Inr False \<and> ps_acceptedAt r = None
         \<and> (\<forall>e. ps_expiresAt r = Some e \<longrightarrow> now \<le> mapFromDriverValue e)"
  then have found: "findByToken db token = Some r"
    and page: "findPage db (ps_pageId r) = Some pg"
    and dom: "domainMismatch db r domain = Inr False"
    and pending: "ps_acceptedAt r = None"
    and deadline: "\<And>e. ps_expiresAt r = Some e \<Longrightarrow> now \<le> mapFromDriverValue e"
    by simp_all
  let ?f = "\<lambda>x. x\<lparr>ps_acceptedAt := Some (mapToDriverValue now),
                   ps_updatedAt := Some (mapToDriverValue now)\<rparr>"
  from verifySubscription_pending [OF found dom pending deadline page]
  obtain s where s: "verifySubscription now token domain db =
           (Inr (Some s), updateWhereId (ps_id r) ?f db)"
      "sub_id s = ps_id r" "sub_acceptedAt s = Some (mapFromDriverValue (mapToDriverValue now))"
      "sub_componentIds s = componentIdsOf db (ps_id r)"
    by blast
  show "\<exists>s. fst (verifySubscription now token domain db) = Inr (Some s)
               \<and> sub_id s = ps_id r
               \<and> sub_acceptedAt s = Some (mapFromDriverValue (mapToDriverValue now))
               \<and> sub_componentIds s = componentIdsOf db (ps_id r)"
    using s by simp
  show "snd (verifySubscription now token domain db) = updateWhereId (ps_id r) ?f db"
    using s by simp
  then show "findByToken (snd (verifySubscription now token domain db)) token = Some (?f r)"
    using findByToken_after_update [OF found, of ?f]
    by simp
qed

text \<open>The claim as it was stated fails for the empty domain string: it matches neither the
  slug nor the custom domain of the example page, and still the pending subscriber is
  accepted. And the acceptance time is not the clock's: at 1000500 ms the row stores 1000
  seconds and the projection carries 1000000 ms.\<close>

theorem verify_empty_domain_counterexample:
  "findByToken exDb ''t2'' = Some exPending
   \<and> findPage exDb (ps_pageId exPending) = Some exPage
   \<and> domainDiffers exPage ''''
   \<and> fst (verifySubscription 1000500 ''t2'' (Some '''') exDb) \<noteq> Inr None
   \<and> snd (verifySubscription 1000500 ''t2'' (Some '''') exDb) \<noteq> exDb
   \<and> fst (verifySubscription 1000500 ''t2'' None exDb)
       = Inr (Some \<lparr> sub_id = 2, sub_pageId = 1, sub_pageName = ''Status'',
               sub_pageSlug = ''status'', sub_customDomain = Some ''st.io'',
               sub_channelType = ''email'', sub_email = Some ''p@b.c'',
               sub_webhookUrl = None, sub_channelConfig = None, sub_token = Some ''t2'',
               sub_acceptedAt = Some 1000000, sub_unsubscribedAt = None,
               sub_componentIds = [1] \<rparr>)
   \<and> findByToken (snd (verifySubscription 1000500 ''t2'' None exDb)) ''t2''
       = Some (exPending\<lparr>ps_acceptedAt := Some 1000, ps_updatedAt := Some 1000\<rparr>)
   \<and> mapFromDriverValue 1000 \<noteq> 1000500"
  by code_simp

theorem verify_outcomes_witness:
  "verifySubscription 1000500 ''zz'' None exDb = (Inr None, exDb)
   \<and> verifySubscription 1000500 ''t2'' (Some ''other'') exDb = (Inr None, exDb)
   \<and> snd (verifySubscription 1000500 ''t1'' (Some ''St.io'') exDb) = exDb
   \<and> verifySubscription 1000500 ''t4'' None exDb = (Inl VerificationTokenExpired, exDb)
   \<and> findByToken (snd (verifySubscription 1000500 ''t2'' (Some ''STATUS'') exDb)) ''t2''
       = Some (exPending\<lparr>ps_acceptedAt := Some 1000, ps_updatedAt := Some 1000\<rparr>)"
proof -
  have unknown: "findByToken exDb ''zz'' = None"
    by code_simp
  have other: "findByToken exDb ''t2'' = Some exPending
      \<and> findPage exDb (ps_pageId exPending) = Some exPage
      \<and> Some ''other'' = Some ''other'' \<and> ''other'' \<noteq> [] \<and> domainDiffers exPage ''other''"
    by code_simp
  have accepted: "findByToken exDb ''t1'' = Some exAccepted
      \<and> findPage exDb (ps_pageId exAccepted) = Some exPage
      \<and> domainMismatch exDb exAccepted (Some ''St.io'') = Inr False
      \<and> ps_acceptedAt exAccepted = Some 100"
    by code_simp
  have expired: "findByToken exDb ''t4'' = Some exExpired
      \<and> domainMismatch exDb exExpired None = Inr False
      \<and> ps_acceptedAt exExpired = None \<and> ps_expiresAt exExpired = Some 10
      \<and> mapFromDriverValue 10 < 1000500"
    by code_simp
  have "ps_expiresAt exPending = Some 5000"
    by code_simp
  moreover have "(1000500 :: int) \<le> mapFromDriverValue 5000"
    by (simp add: mapFromDriverValue_def)
  moreover have "findByToken exDb ''t2'' = Some exPending
      \<and> findPage exDb (ps_pageId exPending) = Some exPage
      \<and> domainMismatch exDb exPending (Some ''STATUS'') = Inr False
      \<and> ps_acceptedAt exPending = None"
    by code_simp
  ultimately have pending: "findByToken exDb ''t2'' = Some exPending
      \<and> findPage exDb (ps_pageId exPending) = Some exPage
      \<and> domainMismatch exDb exPending (Some ''STATUS'') = Inr False
      \<and> ps_acceptedAt exPending = None
      \<and> (\<forall>e. ps_expiresAt exPending = Some e \<longrightarrow> 1000500 \<le> mapFromDriverValue e)"
    by simp
  have seconds: "mapToDriverValue 1000500 = 1000"
    by (simp add: mapToDriverValue_def)
  have 1: "verifySubscription 1000500 ''zz'' None exDb = (Inr None, exDb)"
    using verify_outcomes [where db = exDb and token = "''zz''" and domain = None] unknown
    by blast
  have 2: "verifySubscription 1000500 ''t2'' (Some ''other'') exDb = (Inr None, exDb)"
    using verify_outcomes [where db = exDb and token = "''t2''" and domain = "Some ''other''"]
      other
    by blast
  have 3: "snd (verifySubscription 1000500 ''t1'' (Some ''St.io'') exDb) = exDb"
    using verify_outcomes [where db = exDb and token = "''t1''" and domain = "Some ''St.io''"]
      accepted
    by blast
  have 4: "verifySubscription 1000500 ''t4'' None exDb = (Inl VerificationTokenExpired, exDb)"
    using verify_outcomes [where db = exDb and token = "''t4''" and domain = None
        and now = 1000500] expired
    by blast
  have "findByToken (snd (verifySubscription 1000500 ''t2'' (Some ''STATUS'') exDb)) ''t2''
       = Some (exPending\<lparr>ps_acceptedAt := Some (mapToDriverValue 1000500),
                         ps_updatedAt := Some (mapToDriverValue 1000500)\<rparr>)"
    using verify_outcomes [where db = exDb and token = "''t2''" and domain = "Some ''STATUS''"
        and now = 1000500] pending
    by blast
  then have 5: "findByToken (snd (verifySubscription 1000500 ''t2'' (Some ''STATUS'') exDb)) ''t2''
       = Some (exPending\<lparr>ps_acceptedAt := Some 1000, ps_updatedAt := Some 1000\<rparr>)"
    by (simp only: seconds)
  from 1 2 3 4 5 show ?thesis
    by blast
qed

text \<open>
  Claim C10, as amended. \<^verbatim>\<open>verifySubscription\<close> never looks at \<^verbatim>\<open>unsubscribedAt\<close>. For a
  subscriber found by its token that is pending, unsubscribed, and whose deadline lies in
  the future, a call that passes the domain check returns an accepted projection, not
  \<^verbatim>\<open>null\<close> and not an error, and the stored row, still unsubscribed, now has
  \<^verbatim>\<open>acceptedAt\<close> set to now in whole seconds, which is what the column keeps; the
  projection carries that time.
\<close>

theorem verify_accepts_unsubscribed_row:
  assumes found: "findByToken db token = Some r"
    and pending: "ps_acceptedAt r = None"
    and unsubscribed: "ps_unsubscribedAt r = Some u"
    and deadline: "ps_expiresAt r = Some e" "now < mapFromDriverValue e"
    and domain: "domainMismatch db r domain = Inr False"
    and page: "findPage db (ps_pageId r) = Some pg"
  shows "(\<exists>s. fst (verifySubscription now token domain db) = Inr (Some s)
            \<and> sub_id s = ps_id r
            \<and> sub_acceptedAt s = Some (mapFromDriverValue (mapToDriverValue now)))
    \<and> findByToken (snd (verifySubscription now token domain db)) token
        = Some (r\<lparr>ps_acceptedAt := Some (mapToDriverValue now),
                  ps_updatedAt := Some (mapToDriverValue now)\<rparr>)
    \<and> ps_unsubscribedAt (r\<lparr>ps_acceptedAt := Some (mapToDriverValue now),
                            ps_updatedAt := Some (mapToDriverValue now)\<rparr>) = Some u"
proof -
  let ?f = "\<lambda>x. x\<lparr>ps_acceptedAt := Some (mapToDriverValue now),
                   ps_updatedAt := Some (mapToDriverValue now)\<rparr>"
  have "\<And>e'. ps_expiresAt r = Some e' \<Longrightarrow> now \<le> mapFromDriverValue e'"
    using deadline by simp
  from verifySubscription_pending [OF found domain pending this page]
  obtain s where s: "verifySubscription now token domain db =
           (Inr (Some s), updateWhereId (ps_id r) ?f db)"
      "sub_id s = ps_id r" "sub_acceptedAt s = Some (mapFromDriverValue (mapToDriverValue now))"
    by blast
  show ?thesis
    using s unsubscribed findByToken_after_update [OF found, of ?f]
    by simp
qed

text \<open>The claim as it was stated says that \<^verbatim>\<open>acceptedAt\<close> is set to now. At 1000500 ms the
  row stores 1000 seconds, and the projection returned carries 1000000 ms.\<close>

theorem verify_whole_seconds_counterexample:
  "findByToken exDb ''t3'' = Some exUnsubscribed
   \<and> ps_acceptedAt exUnsubscribed = None
   \<and> ps_unsubscribedAt exUnsubscribed = Some 200
   \<and> ps_expiresAt exUnsubscribed = Some 5000
   \<and> fst (verifySubscription 1000500 ''t3'' None exDb)
       = Inr (Some \<lparr> sub_id = 3, sub_pageId = 1, sub_pageName = ''Status'',
               sub_pageSlug = ''status'', sub_customDomain = Some ''st.io'',
               sub_channelType = ''email'', sub_email = Some ''u@b.c'',
               sub_webhookUrl = None, sub_channelConfig = None, sub_token = Some ''t3'',
               sub_acceptedAt = Some 1000000, sub_unsubscribedAt = None,
               sub_componentIds = [] \<rparr>)
   \<and> map_option ps_acceptedAt (findByToken (snd (verifySubscription 1000500 ''t3'' None exDb)) ''t3'')
       = Some (Some 1000)
   \<and> mapFromDriverValue 1000 \<noteq> 1000500"
  by code_simp

theorem verify_accepts_unsubscribed_row_witness:
  "(\<exists>s. fst (verifySubscription 1000500 ''t3'' (Some ''STATUS'') exDb) = Inr (Some s)
        \<and> sub_id s = ps_id exUnsubscribed \<and> sub_acceptedAt s = Some 1000000)
   \<and> findByToken (snd (verifySubscription 1000500 ''t3'' (Some ''STATUS'') exDb)) ''t3''
       = Some (exUnsubscribed\<lparr>ps_acceptedAt := Some 1000, ps_updatedAt := Some 1000\<rparr>)
   \<and> ps_unsubscribedAt (exUnsubscribed\<lparr>ps_acceptedAt := Some 1000, ps_updatedAt := Some 1000\<rparr>)
       = Some 200"
proof -
  have found: "findByToken exDb ''t3'' = Some exUnsubscribed"
    by code_simp
  have pending: "ps_acceptedAt exUnsubscribed = None"
    by code_simp
  have unsubscribed: "ps_unsubscribedAt exUnsubscribed = Some 200"
    by code_simp
  have deadline: "ps_expiresAt exUnsubscribed = Some 5000"
    by code_simp
  have future: "(1000500 :: int) < mapFromDriverValue 5000"
    by (simp add: mapFromDriverValue_def)
  have domain: "domainMismatch exDb exUnsubscribed (Some ''STATUS'') = Inr False"
    by code_simp
  have page: "findPage exDb (ps_pageId exUnsubscribed) = Some exPage"
    by code_simp
  have seconds: "mapToDriverValue 1000500 = 1000" "mapFromDriverValue 1000 = 1000000"
    by (simp_all add: mapToDriverValue_def mapFromDriverValue_def)
  from verify_accepts_unsubscribed_row
    [OF found pending unsubscribed deadline future domain page]
  show ?thesis
    by (simp only: seconds)
qed

section \<open>Unsubscription\<close>

text \<open>
  Claim C9, as amended. \<^verbatim>\<open>unsubscribe\<close> throws the not-found error and writes nothing
  when the token matches no subscriber, or when a non-empty domain is given that differs
  from both the page's slug and its custom domain. (An empty domain string is not
  checked.) On a subscriber that passes the domain check the call succeeds; afterwards
  the subscriber found by the token is the same row, with \<^verbatim>\<open>unsubscribedAt\<close> (and
  \<^verbatim>\<open>updatedAt\<close>) set to now, in the whole seconds the column keeps, if it was active, and
  untouched if it was unsubscribed already;
  and a second call with the same token and domain, at any later time, succeeds and
  leaves the whole store exactly as the first call left it.
\<close>

theorem unsubscribe_idempotent:
  "(findByToken db token = None
       \<longrightarrow> unsubscribe now token domain db = (Inl SubscriptionNotFound, db))
   \<and> (\<forall>r pg d. findByToken db token = Some r \<and> findPage db (ps_pageId r) = Some pg
         \<and> domain = Some d \<and> d \<noteq> [] \<and> domainDiffers pg d
       \<longrightarrow> unsubscribe now token domain db = (Inl SubscriptionNotFound, db))
   \<and> (\<forall>r. findByToken db token = Some r \<and> domainMismatch db r domain = Inr False
       \<longrightarrow> fst (unsubscribe now token domain db) = Inr ()
         \<and> findByToken (snd (unsubscribe now token domain db)) token
             = Some (case ps_unsubscribedAt r of
                       None \<Rightarrow> r\<lparr>ps_unsubscribedAt := Some (mapToDriverValue now),
                                  ps_updatedAt := Some (mapToDriverValue now)\<rparr>
                     | Some u \<Rightarrow> r)
         \<and> unsubscribe later token domain (snd (unsubscribe now token domain db))
             = (Inr (), snd (unsubscribe now token domain db)))"
proof (intro conjI allI impI)
  assume "findByToken db token = None"
  then show "unsubscribe now token domain db = (Inl SubscriptionNotFound, db)"
    by (simp add: unsubscribe_def)
next
  fix r pg d
  assume "findByToken db token = Some r \<and> findPage db (ps_pageId r) = Some pg
         \<and> domain = Some d \<and> d \<noteq> [] \<and> domainDiffers pg d"
  then show "unsubscribe now token domain db = (Inl SubscriptionNotFound, db)"
    by (simp add: unsubscribe_def domainMismatch_def)
next
  fix r
  assume h: "findByToken db token = Some r \<and> domainMismatch db r domain = Inr False"
  then have found: "findByToken db token = Some r"
    and dom: "domainMismatch db r domain = Inr False"
    by simp_all
  let ?f = "\<lambda>x. x\<lparr>ps_unsubscribedAt := Some (mapToDriverValue now),
                   ps_updatedAt := Some (mapToDriverValue now)\<rparr>"
  let ?db1 = "snd (unsubscribe now token domain db)"
  let ?r1 = "case ps_unsubscribedAt r of None \<Rightarrow> ?f r | Some u \<Rightarrow> r"
  note first = unsubscribe_found [OF found dom, of now]
  show "fst (unsubscribe now token domain db) = Inr ()"
    by (simp add: first)
  show found1: "findByToken ?db1 token = Some ?r1"
    using found findByToken_after_update [OF found, of ?f]
    by (simp add: first split: option.splits)
  have dom1: "domainMismatch ?db1 ?r1 domain = Inr False"
    using dom domainMismatch_updateWhereId [of "?f r" r "ps_id r" ?f db domain]
    by (auto simp add: first split: option.splits)
  have "ps_unsubscribedAt ?r1 \<noteq> None"
    by (simp split: option.splits)
  then show "unsubscribe later token domain ?db1 = (Inr (), ?db1)"
    using unsubscribe_found [OF found1 dom1, of later] by simp
qed

text \<open>The claim as it was stated fails for the empty domain string: it matches neither the
  slug nor the custom domain of the example page, and the call succeeds.\<close>

theorem unsubscribe_empty_domain_counterexample:
  "findByToken exDb ''t2'' = Some exPending
   \<and> findPage exDb (ps_pageId exPending) = Some exPage
   \<and> domainDiffers exPage ''''
   \<and> fst (unsubscribe 1000500 ''t2'' (Some '''') exDb) \<noteq> Inl SubscriptionNotFound"
  by code_simp

theorem unsubscribe_idempotent_witness:
  "unsubscribe 1000500 ''zz'' None exDb = (Inl SubscriptionNotFound, exDb)
   \<and> unsubscribe 1000500 ''t1'' (Some ''other'') exDb = (Inl SubscriptionNotFound, exDb)
   \<and> fst (unsubscribe 1000500 ''t1'' (Some ''status'') exDb) = Inr ()
   \<and> findByToken (snd (unsubscribe 1000500 ''t1'' (Some ''status'') exDb)) ''t1''
       = Some (exAccepted\<lparr>ps_unsubscribedAt := Some 1000, ps_updatedAt := Some 1000\<rparr>)
   \<and> unsubscribe 2000500 ''t1'' (Some ''status'')
         (snd (unsubscribe 1000500 ''t1'' (Some ''status'') exDb))
       = (Inr (), snd (unsubscribe 1000500 ''t1'' (Some ''status'') exDb))"
proof -
  have unknown: "findByToken exDb ''zz'' = None"
    by code_simp
  have other: "findByToken exDb ''t1'' = Some exAccepted
      \<and> findPage exDb (ps_pageId exAccepted) = Some exPage
      \<and> Some ''other'' = Some ''other'' \<and> ''other'' \<noteq> [] \<and> domainDiffers exPage ''other''"
    by code_simp
  have found: "findByToken exDb ''t1'' = Some exAccepted
      \<and> domainMismatch exDb exAccepted (Some ''status'') = Inr False"
    by code_simp
  have active: "ps_unsubscribedAt exAccepted = None"
    by code_simp
  have 1: "unsubscribe 1000500 ''zz'' None exDb = (Inl SubscriptionNotFound, exDb)"
    using unsubscribe_idempotent [where db = exDb and token = "''zz''" and domain = None]
      unknown
    by blast
  have 2: "unsubscribe 1000500 ''t1'' (Some ''other'') exDb = (Inl SubscriptionNotFound, exDb)"
    using unsubscribe_idempotent [where db = exDb and token = "''t1''"
        and domain = "Some ''other''"] other
    by blast
  note twice = unsubscribe_idempotent [where db = exDb and token = "''t1''"
        and domain = "Some ''status''" and now = 1000500 and later = 2000500]
  have 3: "fst (unsubscribe 1000500 ''t1'' (Some ''status'') exDb) = Inr ()"
    using twice found by blast
  have "findByToken (snd (unsubscribe 1000500 ''t1'' (Some ''status'') exDb)) ''t1''
       = Some (case ps_unsubscribedAt exAccepted of
                 None \<Rightarrow> exAccepted\<lparr>ps_unsubscribedAt := Some (mapToDriverValue 1000500),
                                     ps_updatedAt := Some (mapToDriverValue 1000500)\<rparr>
               | Some u \<Rightarrow> exAccepted)"
    using twice found by blast
  then have 4: "findByToken (snd (unsubscribe 1000500 ''t1'' (Some ''status'') exDb)) ''t1''
       = Some (exAccepted\<lparr>ps_unsubscribedAt := Some 1000, ps_updatedAt := Some 1000\<rparr>)"
    by (simp add: active mapToDriverValue_def)
  have 5: "unsubscribe 2000500 ''t1'' (Some ''status'')
         (snd (unsubscribe 1000500 ''t1'' (Some ''status'') exDb))
       = (Inr (), snd (unsubscribe 1000500 ''t1'' (Some ''status'') exDb))"
    using twice found by blast
  from 1 2 3 4 5 show ?thesis
    by blast
qed

section \<open>Scope update\<close>

text \<open>
  Claim C8, as amended. In a store that keeps its constraints, and for a list of
  component ids without duplicates, \<^verbatim>\<open>updateSubscriptionScope\<close> checks in this order, the
  first check that fails deciding the error: it throws the not-found error iff the token
  matches no subscriber or a non-empty domain is given that differs from the page's slug
  and custom domain (an empty domain string is not checked); otherwise the not-verified
  error iff the subscriber is not accepted; otherwise the unsubscribed error iff it is
  unsubscribed; otherwise the component error iff some given id is not a component of the
  subscriber's page; and it succeeds in the remaining case. After a success the
  component ids stored for the subscriber are exactly the list given, and those of every
  other subscriber are as before. After any error the store is unchanged.
\<close>

theorem updateScope_outcomes:
  fixes now :: timestamp and token :: string and domain :: "string option"
  assumes key: "pageComponentKey db" and pages: "subscribersReferToPages db"
    and cs: "distinct componentIds"
  defines "out \<equiv> updateSubscriptionScope now token componentIds domain db"
  shows "((fst out = Inl SubscriptionNotFound) \<longleftrightarrow>
            (findByToken db token = None
             \<or> (\<exists>r pg d. findByToken db token = Some r \<and> findPage db (ps_pageId r) = Some pg
                   \<and> domain = Some d \<and> d \<noteq> [] \<and> domainDiffers pg d)))
    \<and> ((fst out = Inl SubscriptionNotYetVerified) \<longleftrightarrow>
            (\<exists>r. findByToken db token = Some r \<and> domainMismatch db r domain = Inr False
                \<and> ps_acceptedAt r = None))
    \<and> ((fst out = Inl SubscriptionIsUnsubscribed) \<longleftrightarrow>
            (\<exists>r. findByToken db token = Some r \<and> domainMismatch db r domain = Inr False
                \<and> ps_acceptedAt r \<noteq> None \<and> ps_unsubscribedAt r \<noteq> None))
    \<and> ((fst out = Inl ComponentsNotOnPage) \<longleftrightarrow>
            (\<exists>r. findByToken db token = Some r \<and> domainMismatch db r domain = Inr False
                \<and> ps_acceptedAt r \<noteq> None \<and> ps_unsubscribedAt r = None
                \<and> \<not> list_all (componentOnPage db (ps_pageId r)) componentIds))
    \<and> ((\<exists>s. fst out = Inr s) \<longleftrightarrow>
            (\<exists>r. findByToken db token = Some r \<and> domainMismatch db r domain = Inr False
                \<and> ps_acceptedAt r \<noteq> None \<and> ps_unsubscribedAt r = None
                \<and> list_all (componentOnPage db (ps_pageId r)) componentIds))
    \<and> (\<forall>s r. fst out = Inr s \<and> findByToken db token = Some r \<longrightarrow>
            sub_id s = ps_id r \<and> sub_componentIds s = componentIds
            \<and> componentIdsOf (snd out) (ps_id r) = componentIds
            \<and> (\<forall>i. i \<noteq> ps_id r \<longrightarrow> componentIdsOf (snd out) i = componentIdsOf db i))
    \<and> (\<forall>e. fst out = Inl e \<longrightarrow> snd out = db)"
proof (cases "findByToken db token")
  case None
  then have "out = (Inl SubscriptionNotFound, db)"
    by (simp add: out_def updateSubscriptionScope_def)
  with None show ?thesis by simp
next
  case (Some r)
  then obtain pg where pg: "findPage db (ps_pageId r) = Some pg"
    using referred_page [OF pages] by blast
  note out = updateSubscriptionScope_cases [OF key cs Some pg, of now domain, folded out_def]
  note dm = domainMismatch_page [OF pg, of domain]
  show ?thesis
    unfolding out using Some pg
    by (auto simp add: dm componentIdsOf_replaced split: option.splits)
qed

text \<open>The claim as it was stated says the unsubscribed error is thrown iff the subscriber
  is unsubscribed. A subscriber that unsubscribed before it was ever verified gets the
  not-verified error instead.\<close>

theorem updateScope_unverified_unsubscribed_counterexample:
  "findByToken exDb ''t3'' = Some exUnsubscribed
   \<and> ps_unsubscribedAt exUnsubscribed \<noteq> None
   \<and> fst (updateSubscriptionScope 1000 ''t3'' [] None exDb) \<noteq> Inl SubscriptionIsUnsubscribed"
  by code_simp

theorem updateScope_outcomes_witness:
  "fst (updateSubscriptionScope 1000 ''zz'' [2] None exDb) = Inl SubscriptionNotFound
   \<and> fst (updateSubscriptionScope 1000 ''t2'' [2] None exDb) = Inl SubscriptionNotYetVerified
   \<and> fst (updateSubscriptionScope 1000 ''t5'' [2] None exDb) = Inl SubscriptionIsUnsubscribed
   \<and> fst (updateSubscriptionScope 1000 ''t1'' [2, 9] None exDb) = Inl ComponentsNotOnPage
   \<and> snd (updateSubscriptionScope 1000 ''t1'' [2, 9] None exDb) = exDb
   \<and> (\<exists>s. fst (updateSubscriptionScope 1000 ''t1'' [2] (Some ''status'') exDb) = Inr s)
   \<and> componentIdsOf (snd (updateSubscriptionScope 1000 ''t1'' [2] (Some ''status'') exDb))
        (ps_id exAccepted) = [2]"
proof -
  have key: "pageComponentKey exDb"
    by code_simp
  have pages: "subscribersReferToPages exDb"
    by code_simp
  have one: "distinct [2 :: int]" and two: "distinct [2 :: int, 9]"
    by simp_all
  have unknown: "findByToken exDb ''zz'' = None"
    by code_simp
  have pending: "findByToken exDb ''t2'' = Some exPending
      \<and> domainMismatch exDb exPending None = Inr False \<and> ps_acceptedAt exPending = None"
    by code_simp
  have left: "findByToken exDb ''t5'' = Some exLeft
      \<and> domainMismatch exDb exLeft None = Inr False
      \<and> ps_acceptedAt exLeft \<noteq> None \<and> ps_unsubscribedAt exLeft \<noteq> None"
    by code_simp
  have foreign: "findByToken exDb ''t1'' = Some exAccepted
      \<and> domainMismatch exDb exAccepted None = Inr False
      \<and> ps_acceptedAt exAccepted \<noteq> None \<and> ps_unsubscribedAt exAccepted = None
      \<and> \<not> list_all (componentOnPage exDb (ps_pageId exAccepted)) [2, 9]"
    by code_simp
  have good: "findByToken exDb ''t1'' = Some exAccepted
      \<and> domainMismatch exDb exAccepted (Some ''status'') = Inr False
      \<and> ps_acceptedAt exAccepted \<noteq> None \<and> ps_unsubscribedAt exAccepted = None
      \<and> list_all (componentOnPage exDb (ps_pageId exAccepted)) [2]"
    by code_simp
  have 1: "fst (updateSubscriptionScope 1000 ''zz'' [2] None exDb) = Inl SubscriptionNotFound"
    using updateScope_outcomes [OF key pages one, of 1000 "''zz''" None] unknown
    by simp
  have 2: "fst (updateSubscriptionScope 1000 ''t2'' [2] None exDb)
      = Inl SubscriptionNotYetVerified"
    using updateScope_outcomes [OF key pages one, of 1000 "''t2''" None] pending
    by blast
  have 3: "fst (updateSubscriptionScope 1000 ''t5'' [2] None exDb)
      = Inl SubscriptionIsUnsubscribed"
    using updateScope_outcomes [OF key pages one, of 1000 "''t5''" None] left
    by blast
  have 4: "fst (updateSubscriptionScope 1000 ''t1'' [2, 9] None exDb) = Inl ComponentsNotOnPage"
    using updateScope_outcomes [OF key pages two, of 1000 "''t1''" None] foreign
    by blast
  have 5: "snd (updateSubscriptionScope 1000 ''t1'' [2, 9] None exDb) = exDb"
    using updateScope_outcomes [OF key pages two, of 1000 "''t1''" None] 4
    by simp
  note ok = updateScope_outcomes [OF key pages one, of 1000 "''t1''" "Some ''status''"]
  have 6: "\<exists>s. fst (updateSubscriptionScope 1000 ''t1'' [2] (Some ''status'') exDb) = Inr s"
    using ok good by blast
  have 7: "componentIdsOf (snd (updateSubscriptionScope 1000 ''t1'' [2] (Some ''status'') exDb))
        (ps_id exAccepted) = [2]"
    using ok 6 good by blast
  from 1 2 3 4 5 6 7 show ?thesis
    by blast
qed


section \<open>Upsert on a pending subscription\<close>




section \<open>Upsert after unsubscription\<close>




section \<open>One active row per identity\<close>




section \<open>Facts about the dispatcher and the channels\<close>


lemma list_ex_member_iff:
  "list_ex (\<lambda>i. i \<in> set cs) affected \<longleftrightarrow> set cs \<inter> set affected \<noteq> {}"
  by (auto simp add: list_ex_iff)

lemma sub_componentIds_toSubscription [simp]:
  "sub_componentIds (toSubscription db pg r) = componentIdsOf db (ps_id r)"
  "sub_channelType (toSubscription db pg r) = ps_channelType r"
  by (simp_all add: toSubscription_def)

lemma matchingSubscriptions_spec:
  "matchingSubscriptions db pageData pu
     = map (toSubscription db pageData) (filter (specMatches db pu) (pageSubscribers db))"
  unfolding matchingSubscriptions_def subscribersWithComponents_def Let_def
    filter_map filter_filter o_def
  by (intro arg_cong [where f = "map (toSubscription db pageData)"] filter_cong refl)
     (auto simp add: specMatches_def list_ex_member_iff)

lemma newSet_snoc:
  "newSet (xs @ [x]) = (if x \<in> set xs then newSet xs else newSet xs @ [x])"
  by (simp add: newSet_def)

lemma pushSubscription_groupsOf:
  assumes "\<not> inheritedProperty (sub_channelType y)"
  shows "pushSubscription (groupsOf xs) y = Inr (groupsOf (xs @ [y]))"
proof (cases "sub_channelType y \<in> set (map sub_channelType xs)")
  case True
  then have "groupsOf (xs @ [y])
      = map (\<lambda>(k, subs). if k = sub_channelType y then (k, subs @ [y]) else (k, subs))
          (groupsOf xs)"
    by (auto simp add: groupsOf_def newSet_snoc)
  moreover have "sub_channelType y \<in> set (map fst (groupsOf xs))"
    using True by (simp add: groupsOf_def o_def)
  ultimately show ?thesis
    by (simp add: pushSubscription_def Let_def)
next
  case False
  then have none: "filter (\<lambda>s. sub_channelType s = sub_channelType y) xs = []"
    by (force simp add: filter_empty_conv image_iff)
  have "filter (\<lambda>s. sub_channelType s = k) (xs @ [y]) = filter (\<lambda>s. sub_channelType s = k) xs"
    if "k \<in> set (map sub_channelType xs)" for k
    using False that by (force simp add: image_iff)
  then have "map (\<lambda>k. (k, filter (\<lambda>s. sub_channelType s = k) (xs @ [y])))
          (newSet (map sub_channelType xs))
      = groupsOf xs"
    unfolding groupsOf_def by (intro map_cong) simp_all
  then have "groupsOf (xs @ [y]) = groupsOf xs @ [(sub_channelType y, [y])]"
    using False none by (simp add: groupsOf_def newSet_snoc)
  moreover have "sub_channelType y \<notin> set (map fst (groupsOf xs))"
    using False by (simp add: groupsOf_def o_def)
  ultimately show ?thesis
    using assms by (simp add: pushSubscription_def Let_def)
qed

lemma byChannel_groupsOf:
  assumes "list_all (\<lambda>s. \<not> inheritedProperty (sub_channelType s)) ys"
  shows "byChannel (groupsOf xs) ys = Inr (groupsOf (xs @ ys))"
  using assms
proof (induction ys arbitrary: xs)
  case Nil
  then show ?case by simp
next
  case (Cons y ys)
  then show ?case
    using Cons.IH [of "xs @ [y]"] by (simp add: pushSubscription_groupsOf)
qed

lemma byChannel_all:
  assumes "list_all (\<lambda>s. \<not> inheritedProperty (sub_channelType s)) subs"
  shows "byChannel [] subs = Inr (groupsOf subs)"
  using byChannel_groupsOf [OF assms, of "[]"] by (simp add: groupsOf_def newSet_def)

lemma runChannel_shape:
  "\<exists>outcome calls. runChannel env pu (k, subs)
     = (Inr (), [\<lparr> cr_channelType = k, cr_subscriptions = subs,
                   cr_outcome = outcome, cr_deliveries = calls \<rparr>])
     \<and> (outcome = UnknownChannelType \<longleftrightarrow> getChannel k = None)
     \<and> (getChannel k = None \<longrightarrow> calls = [])"
  by (auto simp add: runChannel_def split: option.splits prod.splits sum.splits)

lemma runs_groups:
  "map (\<lambda>run. (cr_channelType run, cr_subscriptions run))
     (concat (map (\<lambda>g. snd (runChannel env pu g)) groups)) = groups"
proof (induction groups)
  case Nil
  then show ?case by simp
next
  case (Cons g groups)
  obtain k subs where g: "g = (k, subs)" by (cases g) auto
  obtain outcome calls where "runChannel env pu (k, subs)
     = (Inr (), [\<lparr> cr_channelType = k, cr_subscriptions = subs,
                   cr_outcome = outcome, cr_deliveries = calls \<rparr>])"
    using runChannel_shape [of env pu k subs] by blast
  then show ?case
    using Cons.IH g by simp
qed

lemma Object_entries_ordinary:
  assumes "list_all (\<lambda>entry. \<not> arrayIndex (fst entry)) obj"
  shows "Object_entries obj = obj"
proof -
  have "filter (\<lambda>entry. arrayIndex (fst entry)) obj = []"
    using assms by (auto simp add: list_all_iff filter_empty_conv)
  moreover have "filter (\<lambda>entry. \<not> arrayIndex (fst entry)) obj = obj"
    using assms by (auto simp add: list_all_iff filter_id_conv)
  ultimately show ?thesis
    by (simp add: Object_entries_def)
qed

lemma groupsOf_keys: "fst ` set (groupsOf subs) = sub_channelType ` set subs"
  by (simp add: groupsOf_def set_newSet image_image)

lemma dispatch_groups:
  assumes "findPage db (pu_pageId pu) = Some pageData"
    and "list_all (\<lambda>r. ordinaryKey (ps_channelType r)) (pageSubscribers db)"
  shows "dispatchPageUpdate env db pu
    = (Inr (), concat (map (\<lambda>g. snd (runChannel env pu g))
                 (groupsOf (matchingSubscriptions db pageData pu))))"
proof -
  let ?m = "matchingSubscriptions db pageData pu"
  have ordinary: "list_all (\<lambda>s. ordinaryKey (sub_channelType s)) ?m"
    using assms(2) by (auto simp add: matchingSubscriptions_spec list_all_iff)
  then have "list_all (\<lambda>s. \<not> inheritedProperty (sub_channelType s)) ?m"
    by (simp add: list_all_iff ordinaryKey_def)
  then have groups: "byChannel [] ?m = Inr (groupsOf ?m)"
    by (rule byChannel_all)
  have "\<forall>entry \<in> set (groupsOf ?m). \<not> arrayIndex (fst entry)"
  proof
    fix entry
    assume "entry \<in> set (groupsOf ?m)"
    then have "fst entry \<in> sub_channelType ` set ?m"
      using groupsOf_keys [of ?m] by blast
    then show "\<not> arrayIndex (fst entry)"
      using ordinary by (auto simp add: list_all_iff ordinaryKey_def)
  qed
  then have entries: "Object_entries (groupsOf ?m) = groupsOf ?m"
    by (intro Object_entries_ordinary) (simp add: list_all_iff)
  have empty: "?m = [] \<Longrightarrow> groupsOf ?m = []"
    by (simp add: groupsOf_def newSet_def)
  show ?thesis
    using assms(1) groups empty
    by (simp add: dispatchPageUpdate_def Let_def allSettled_def o_def entries)
qed


lemma customHeaders_env [simp]:
  "customHeaders (env\<lparr>RESEND_API_KEY := k, emailClient := c, sendStatusReportUpdate := m\<rparr>) s
     = customHeaders env s"
  "customHeaders (env\<lparr>fetch := net\<rparr>) s = customHeaders env s"
  by (simp_all add: customHeaders_def parseConfig_def split: option.splits)



lemma getEmailClient_env [simp]:
  "getEmailClient (env\<lparr>JSON_parse := parse, fetch := net\<rparr>) = getEmailClient env"
  by (simp add: getEmailClient_def)














section \<open>Dispatch: who is notified\<close>

text \<open>
  Claim C1. The subscriptions \<^verbatim>\<open>dispatchPageUpdate\<close> selects are the projections, in row
  order, of exactly the subscriber rows that match in the words of the specification: rows
  of the event's page with \<^verbatim>\<open>acceptedAt\<close> set and \<^verbatim>\<open>unsubscribedAt\<close> null whose component
  set is empty or meets the event's affected components. So every selected subscription
  has an empty scope or one that shares a component with the event. When the page is
  stored (and every channel type is an ordinary key of the grouping object, as \<^verbatim>\<open>email\<close>
  and \<^verbatim>\<open>webhook\<close> are), the groups handed to the channels are these subscriptions,
  grouped by channel type; when the page is not stored, nothing is handed to any channel.
\<close>

theorem dispatch_selects_matching:
  "matchingSubscriptions db pageData pu
     = map (toSubscription db pageData) (filter (specMatches db pu) (pageSubscribers db))
   \<and> list_all (\<lambda>s. sub_componentIds s = []
                  \<or> set (sub_componentIds s) \<inter> set (pu_pageComponentIds pu) \<noteq> {})
        (matchingSubscriptions db pageData pu)
   \<and> (findPage db (pu_pageId pu) = Some pageData
        \<and> list_all (\<lambda>r. ordinaryKey (ps_channelType r)) (pageSubscribers db)
      \<longrightarrow> map (\<lambda>run. (cr_channelType run, cr_subscriptions run))
            (snd (dispatchPageUpdate env db pu))
          = groupsOf (map (toSubscription db pageData)
              (filter (specMatches db pu) (pageSubscribers db))))
   \<and> (findPage db (pu_pageId pu) = None \<longrightarrow> snd (dispatchPageUpdate env db pu) = [])"
proof (intro conjI impI)
  show spec: "matchingSubscriptions db pageData pu
     = map (toSubscription db pageData) (filter (specMatches db pu) (pageSubscribers db))"
    by (rule matchingSubscriptions_spec)
  show "list_all (\<lambda>s. sub_componentIds s = []
                  \<or> set (sub_componentIds s) \<inter> set (pu_pageComponentIds pu) \<noteq> {})
        (matchingSubscriptions db pageData pu)"
    unfolding spec by (auto simp add: list_all_iff specMatches_def)
next
  assume "findPage db (pu_pageId pu) = Some pageData
        \<and> list_all (\<lambda>r. ordinaryKey (ps_channelType r)) (pageSubscribers db)"
  then have "dispatchPageUpdate env db pu
    = (Inr (), concat (map (\<lambda>g. snd (runChannel env pu g))
                 (groupsOf (matchingSubscriptions db pageData pu))))"
    by (intro dispatch_groups) simp_all
  then show "map (\<lambda>run. (cr_channelType run, cr_subscriptions run))
            (snd (dispatchPageUpdate env db pu))
          = groupsOf (map (toSubscription db pageData)
              (filter (specMatches db pu) (pageSubscribers db)))"
    by (simp add: runs_groups matchingSubscriptions_spec)
next
  assume "findPage db (pu_pageId pu) = None"
  then show "snd (dispatchPageUpdate env db pu) = []"
    by (simp add: dispatchPageUpdate_def)
qed

theorem dispatch_selects_matching_witness:
  "map sub_id (matchingSubscriptions exWatchers exPage (exUpdate [1])) = [1, 2, 4]
   \<and> map sub_id (matchingSubscriptions exWatchers exPage (exUpdate [])) = [1, 4]
   \<and> map sub_id (matchingSubscriptions exWatchers exPage (exUpdate [1, 2])) = [1, 2, 3, 4]
   \<and> map (\<lambda>run. (cr_channelType run, map sub_id (cr_subscriptions run)))
        (snd (dispatchPageUpdate exFailing exWatchers (exUpdate [1, 2])))
      = [(''email'', [1, 2]), (''webhook'', [3]), (''sms'', [4])]"
proof -
  note selected = dispatch_selects_matching [where db = exWatchers and pageData = exPage
      and env = exFailing]
  have m1: "map sub_id (map (toSubscription exWatchers exPage)
      (filter (specMatches exWatchers (exUpdate [1])) (pageSubscribers exWatchers))) = [1, 2, 4]"
    by code_simp
  have m0: "map sub_id (map (toSubscription exWatchers exPage)
      (filter (specMatches exWatchers (exUpdate [])) (pageSubscribers exWatchers))) = [1, 4]"
    by code_simp
  have m2: "map sub_id (map (toSubscription exWatchers exPage)
      (filter (specMatches exWatchers (exUpdate [1, 2])) (pageSubscribers exWatchers)))
      = [1, 2, 3, 4]"
    by code_simp
  have stored: "findPage exWatchers (pu_pageId (exUpdate [1, 2])) = Some exPage
      \<and> list_all (\<lambda>r. ordinaryKey (ps_channelType r)) (pageSubscribers exWatchers)"
    by code_simp
  have groups: "map (\<lambda>(k, subs). (k, map sub_id subs))
      (groupsOf (map (toSubscription exWatchers exPage)
         (filter (specMatches exWatchers (exUpdate [1, 2])) (pageSubscribers exWatchers))))
      = [(''email'', [1, 2]), (''webhook'', [3]), (''sms'', [4])]"
    by code_simp
  have 1: "map sub_id (matchingSubscriptions exWatchers exPage (exUpdate [1])) = [1, 2, 4]"
    using selected [where pu = "exUpdate [1]", THEN conjunct1] m1 by simp
  have 2: "map sub_id (matchingSubscriptions exWatchers exPage (exUpdate [])) = [1, 4]"
    using selected [where pu = "exUpdate []", THEN conjunct1] m0 by simp
  have 3: "map sub_id (matchingSubscriptions exWatchers exPage (exUpdate [1, 2])) = [1, 2, 3, 4]"
    using selected [where pu = "exUpdate [1, 2]", THEN conjunct1] m2 by simp
  have "map (\<lambda>run. (cr_channelType run, cr_subscriptions run))
        (snd (dispatchPageUpdate exFailing exWatchers (exUpdate [1, 2])))
      = groupsOf (map (toSubscription exWatchers exPage)
         (filter (specMatches exWatchers (exUpdate [1, 2])) (pageSubscribers exWatchers)))"
    by (rule selected [where pu = "exUpdate [1, 2]", THEN conjunct2, THEN conjunct2,
          THEN conjunct1, rule_format, OF stored])
  then have "map (\<lambda>(k, subs). (k, map sub_id subs))
        (map (\<lambda>run. (cr_channelType run, cr_subscriptions run))
          (snd (dispatchPageUpdate exFailing exWatchers (exUpdate [1, 2]))))
      = [(''email'', [1, 2]), (''webhook'', [3]), (''sms'', [4])]"
    by (simp only: groups)
  then have 4: "map (\<lambda>run. (cr_channelType run, map sub_id (cr_subscriptions run)))
        (snd (dispatchPageUpdate exFailing exWatchers (exUpdate [1, 2])))
      = [(''email'', [1, 2]), (''webhook'', [3]), (''sms'', [4])]"
    by (simp add: o_def)
  from 1 2 3 4 show ?thesis
    by blast
qed

section \<open>Dispatch: failures stay where they happen\<close>



end
